theory Spec2Isabelle
  imports Complex_Main "HOL-Library.Multiset" "HOL-Library.Product_Lexorder" "HOL-Library.AList"
begin

section \<open>Python values\<close>

text \<open>
  A Python \<open>str\<close> is a sequence of Unicode code points, so \<open>len\<close> counts code points
  and \<open>in\<close> is the search for a contiguous run of code points. The Persian literals of
  the source are written by their code points (\<open>0x633\<close> is U+0633). A Python \<open>float\<close>
  is modelled by a real number: every property below is about the exact arithmetic of
  the formulas, and each place where rounding could matter is discussed where it occurs.
\<close>

type_synonym ustring = "nat list"

definition ascii :: "string \<Rightarrow> ustring" where
  "ascii s = map of_char s"

text \<open>\<open>str.isspace\<close> for one code point: the white-space characters of Unicode.\<close>

definition py_isspace :: "nat \<Rightarrow> bool" where
  "py_isspace c = (c \<in> {0x09, 0x0A, 0x0B, 0x0C, 0x0D, 0x1C, 0x1D, 0x1E, 0x1F, 0x20, 0x85, 0xA0,
     0x1680, 0x2000, 0x2001, 0x2002, 0x2003, 0x2004, 0x2005, 0x2006, 0x2007, 0x2008, 0x2009,
     0x200A, 0x2028, 0x2029, 0x202F, 0x205F, 0x3000})"

text \<open>\<open>str.strip()\<close>: white space removed at both ends.\<close>

definition py_strip :: "ustring \<Rightarrow> ustring" where
  "py_strip s = rev (dropWhile py_isspace (rev (dropWhile py_isspace s)))"

text \<open>
  \<open>str.lower()\<close> on the Basic Latin letters, and on the Kelvin sign, whose lower case is
  \<open>k\<close>. Persian letters have no case. The other cased scripts of Unicode are left as they
  are: no literal of the source belongs to them.
\<close>

definition lower_char :: "nat \<Rightarrow> nat" where
  "lower_char c = (if 0x41 \<le> c \<and> c \<le> 0x5A then c + 0x20 else if c = 0x212A then 0x6B else c)"

definition py_lower :: "ustring \<Rightarrow> ustring" where
  "py_lower s = map lower_char s"

text \<open>\<open>sub in s\<close> on strings: \<open>sub\<close> occurs in \<open>s\<close> as a contiguous run.\<close>

fun starts_with :: "ustring \<Rightarrow> ustring \<Rightarrow> bool" where
  "starts_with [] s = True"
| "starts_with (p # ps) [] = False"
| "starts_with (p # ps) (c # cs) = (p = c \<and> starts_with ps cs)"

fun py_in :: "ustring \<Rightarrow> ustring \<Rightarrow> bool" where
  "py_in sub [] = (sub = [])"
| "py_in sub (c # cs) = (starts_with sub (c # cs) \<or> py_in sub cs)"

text \<open>\<open>str.split()\<close> with no argument: the maximal runs of characters that are not white space.\<close>

fun split_ws :: "ustring \<Rightarrow> ustring \<Rightarrow> ustring list" where
  "split_ws cur [] = (if cur = [] then [] else [cur])"
| "split_ws cur (c # cs) =
     (if py_isspace c then (if cur = [] then split_ws [] cs else cur # split_ws [] cs)
      else split_ws (cur @ [c]) cs)"

definition py_split :: "ustring \<Rightarrow> ustring list" where
  "py_split s = split_ws [] s"

text \<open>\<open>sep.join(parts)\<close>.\<close>

fun py_join :: "ustring \<Rightarrow> ustring list \<Rightarrow> ustring" where
  "py_join sep [] = []"
| "py_join sep [p] = p"
| "py_join sep (p # q # ps) = p @ sep @ py_join sep (q # ps)"

text \<open>
  Truth values of Python: an optional string is true when it is present and not empty, an
  optional number when it is present and not zero.
\<close>

definition truthy_str :: "ustring option \<Rightarrow> bool" where
  "truthy_str s = (case s of None \<Rightarrow> False | Some t \<Rightarrow> t \<noteq> [])"

definition truthy_num :: "real option \<Rightarrow> bool" where
  "truthy_num x = (case x of None \<Rightarrow> False | Some v \<Rightarrow> v \<noteq> 0)"

section \<open>Crawler schemas (crawler/schemas.py)\<close>

text \<open>
  The fields of \<open>CrawledItem\<close>, \<open>CrawlResult\<close> and \<open>CrawlBatchResult\<close>, each with a prefix
  that keeps the field names of the different classes apart. \<open>properties\<close> is a dictionary
  in insertion order; \<open>crawled_at\<close> is the time stamp in its ISO form. The wall-clock fields
  (\<open>execution_time\<close>, \<open>timestamp\<close>), the \<open>metadata\<close> of a result, which is always left at its
  default, and \<open>search_query\<close>, which nothing reads, are not modelled.
\<close>

record CrawledItem =
  ci_item_id :: ustring
  ci_source_site :: ustring
  ci_title :: ustring
  ci_description :: "ustring option"
  ci_url :: ustring
  ci_price :: "real option"
  ci_price_text :: "ustring option"
  ci_price_type :: "ustring option"
  ci_location :: "ustring option"
  ci_city :: "ustring option"
  ci_district :: "ustring option"
  ci_images :: "ustring list"
  ci_thumbnail :: "ustring option"
  ci_properties :: "(ustring \<times> ustring) list"
  ci_crawled_at :: ustring
  ci_goal_id :: "int option"
  ci_confidence_score :: real
  ci_completeness_score :: real

record CrawlResult =
  cr_success :: bool
  cr_site_name :: ustring
  cr_items :: "CrawledItem list"
  cr_total_items :: int
  cr_errors :: "ustring list"

record CrawlBatchResult =
  cb_success :: bool
  cb_results :: "CrawlResult list"
  cb_total_items :: int

section \<open>Result normalizer (crawler/data\_normalizer.py)\<close>

text \<open>\<open>DataNormalizer._calculate_completeness\<close>: the statements of the source in their order.\<close>

definition calculate_completeness :: "CrawledItem \<Rightarrow> real" where
  "calculate_completeness item =
     (let score = 0;
          max_score = 10;
          score = (if ci_title item \<noteq> [] then score + 1 else score);
          score = (if ci_url item \<noteq> [] then score + 1 else score);
          score = (if truthy_num (ci_price item) \<or> truthy_str (ci_price_text item)
                   then score + 1.5 else score);
          score = (if truthy_str (ci_location item) then score + 1 else score);
          score = (if ci_images item \<noteq> [] then score + 1 else score);
          score = (if truthy_str (ci_description item) then score + 0.5 else score);
          score = (if truthy_str (ci_city item) then score + 0.5 else score);
          score = (if truthy_str (ci_district item) then score + 0.5 else score);
          score = (if ci_properties item \<noteq> [] then score + 1 else score)
      in min (score / max_score) 1)"

text \<open>\<open>DataNormalizer._normalize_text\<close>.\<close>

definition normalize_text :: "ustring \<Rightarrow> ustring" where
  "normalize_text text =
     (if text = [] then []
      else py_strip (py_join [0x20] (py_split text)))"

text \<open>
  \<open>DataNormalizer._normalize_location\<close>. The keys of \<open>location_map\<close> are the Persian name of
  Tehran (U+062A U+0647 U+0631 U+0627 U+0646), \<open>tehran\<close> and \<open>tehran city\<close>; each maps to the
  Persian name.
\<close>

definition tehran_fa :: ustring where
  "tehran_fa = [0x62A, 0x647, 0x631, 0x627, 0x646]"

definition location_map :: "(ustring \<times> ustring) list" where
  "location_map = [(tehran_fa, tehran_fa), (ascii ''tehran'', tehran_fa),
     (ascii ''tehran city'', tehran_fa)]"

definition normalize_location :: "ustring \<Rightarrow> ustring" where
  "normalize_location location =
     (if location = [] then []
      else (case map_of location_map (py_lower location) of
              Some l \<Rightarrow> l
            | None \<Rightarrow> py_strip location))"

text \<open>
  The dictionary that \<open>_normalize_item\<close> returns. The comprehension at its end removes the
  keys whose value is \<open>None\<close>: an optional field that is \<open>None\<close> here is a key that is absent.
\<close>

record NormalizedItem =
  ni_item_id :: ustring
  ni_source_site :: ustring
  ni_title :: ustring
  ni_description :: "ustring option"
  ni_url :: ustring
  ni_price :: "real option"
  ni_price_text :: "ustring option"
  ni_price_type :: "ustring option"
  ni_location :: "ustring option"
  ni_city :: "ustring option"
  ni_district :: "ustring option"
  ni_images :: "ustring list"
  ni_thumbnail :: "ustring option"
  ni_properties :: "(ustring \<times> ustring) list"
  ni_goal_id :: "int option"
  ni_confidence_score :: real
  ni_completeness_score :: real
  ni_crawled_at :: ustring

text \<open>
  \<open>DataNormalizer._normalize_item\<close>. \<open>normalized_dict\<close> is the dictionary that the \<open>try\<close> block
  builds. The \<open>except\<close> branch returns \<open>None\<close>; no statement of the \<open>try\<close> block raises on an
  item of the declared field types, so the result is always \<open>Some\<close> dictionary, and that
  dictionary has keys, so it is true in the caller's test.
\<close>

definition normalized_dict :: "CrawledItem \<Rightarrow> NormalizedItem" where
  "normalized_dict item = \<lparr>
     ni_item_id = ci_item_id item,
     ni_source_site = ci_source_site item,
     ni_title = normalize_text (ci_title item),
     ni_description = (if truthy_str (ci_description item)
                       then map_option normalize_text (ci_description item) else None),
     ni_url = ci_url item,
     ni_price = ci_price item,
     ni_price_text = ci_price_text item,
     ni_price_type = ci_price_type item,
     ni_location = (if truthy_str (ci_location item)
                    then map_option normalize_location (ci_location item) else None),
     ni_city = ci_city item,
     ni_district = ci_district item,
     ni_images = ci_images item,
     ni_thumbnail = ci_thumbnail item,
     ni_properties = ci_properties item,
     ni_goal_id = ci_goal_id item,
     ni_confidence_score = ci_confidence_score item,
     ni_completeness_score = calculate_completeness item,
     ni_crawled_at = ci_crawled_at item \<rparr>"

definition normalize_item :: "CrawledItem \<Rightarrow> NormalizedItem option" where
  "normalize_item item = Some (normalized_dict item)"

text \<open>
  \<open>list.sort(key=..., reverse=True)\<close>: Python reverses the list, sorts it stably in
  ascending order of the key and reverses the result, so that items of equal key keep
  their order.
\<close>

definition sort_reverse :: "('a \<Rightarrow> 'k::linorder) \<Rightarrow> 'a list \<Rightarrow> 'a list" where
  "sort_reverse key xs = rev (sort_key key (rev xs))"

text \<open>The first loop of \<open>normalize_batch\<close>: the items of the successful results, in order.\<close>

fun collect_loop :: "CrawledItem list \<Rightarrow> CrawlResult list \<Rightarrow> CrawledItem list" where
  "collect_loop all_items [] = all_items"
| "collect_loop all_items (result # rest) =
     collect_loop (if cr_success result then all_items @ cr_items result else all_items) rest"

definition collect_items :: "CrawlBatchResult \<Rightarrow> CrawledItem list" where
  "collect_items batch_result = collect_loop [] (cb_results batch_result)"

text \<open>
  The second loop: an item whose url was seen is skipped; otherwise the url is recorded
  and the normalized item, when there is one, is appended.
\<close>

fun dedup_loop ::
  "ustring set \<Rightarrow> NormalizedItem list \<Rightarrow> CrawledItem list \<Rightarrow> NormalizedItem list" where
  "dedup_loop seen_urls normalized_items [] = normalized_items"
| "dedup_loop seen_urls normalized_items (item # rest) =
     (if ci_url item \<in> seen_urls then dedup_loop seen_urls normalized_items rest
      else (case normalize_item item of
              Some normalized \<Rightarrow>
                dedup_loop (insert (ci_url item) seen_urls) (normalized_items @ [normalized]) rest
            | None \<Rightarrow> dedup_loop (insert (ci_url item) seen_urls) normalized_items rest))"

text \<open>
  The dictionary that \<open>normalize_batch\<close> returns, without its time stamp. \<open>sources\<close> is built
  with \<open>list(set(...))\<close>, whose order Python does not fix: it is a set here.
\<close>

record NormalizedBatch =
  nb_success :: bool
  nb_total_items :: int
  nb_items :: "NormalizedItem list"
  nb_sources :: "ustring set"
  nb_normalization_applied :: bool
  nb_duplicates_removed :: int

definition normalize_batch :: "CrawlBatchResult \<Rightarrow> NormalizedBatch" where
  "normalize_batch batch_result =
     (let all_items = collect_items batch_result;
          normalized_items = dedup_loop {} [] all_items;
          normalized_items =
            sort_reverse (\<lambda>x. (ni_confidence_score x, ni_completeness_score x)) normalized_items
      in \<lparr> nb_success = True,
           nb_total_items = int (length normalized_items),
           nb_items = normalized_items,
           nb_sources = set (map ni_source_site normalized_items),
           nb_normalization_applied = True,
           nb_duplicates_removed = int (length all_items) - int (length normalized_items) \<rparr>)"

section \<open>Crawl orchestrator (crawler/base\_crawler.py, crawler/crawler\_manager.py)\<close>

text \<open>An exception, with the message that \<open>str(e)\<close> gives.\<close>

datatype exn = Exn ustring

fun str_exn :: "exn \<Rightarrow> ustring" where
  "str_exn (Exn msg) = msg"

text \<open>
  A crawler: the configuration that \<open>crawl\<close> reads, the three abstract methods of
  \<open>BaseCrawler\<close>, each of which may raise, and the transport. \<open>bc_requests_get url attempt\<close> is
  the outcome of \<open>requests.get\<close> followed by \<open>raise_for_status\<close> at the given attempt: the text
  of the response or an exception. \<open>bc_driver\<close> is the outcome of \<open>get_driver\<close> for a crawler
  that uses Selenium: creating the browser raises, or there is a driver, which for a url
  gives the page source or raises. \<open>'f\<close> is the type of the filters, \<open>'raw\<close> of a raw record.
\<close>

record ('f, 'raw) crawler =
  bc_site_name :: ustring
  bc_use_selenium :: bool
  bc_retry_times :: nat
  bc_build_search_url :: "'f \<Rightarrow> exn + ustring"
  bc_extract_items :: "ustring \<Rightarrow> exn + 'raw list"
  bc_normalize_item :: "'raw \<Rightarrow> int option \<Rightarrow> exn + CrawledItem option"
  bc_requests_get :: "ustring \<Rightarrow> nat \<Rightarrow> exn + ustring"
  bc_driver :: "exn + (ustring \<Rightarrow> exn + ustring)"

text \<open>
  \<open>BaseCrawler._fetch_with_requests\<close>: the loop over \<open>range(retry_times)\<close>. A failed attempt
  that is not the last one sleeps and goes on; the last one returns \<open>None\<close>.
\<close>

fun fetch_attempts :: "(nat \<Rightarrow> exn + ustring) \<Rightarrow> nat \<Rightarrow> nat list \<Rightarrow> ustring option" where
  "fetch_attempts get retry_times [] = None"
| "fetch_attempts get retry_times (attempt # rest) =
     (case get attempt of
        Inr text \<Rightarrow> Some text
      | Inl e \<Rightarrow> (if attempt < retry_times - 1 then fetch_attempts get retry_times rest
                  else None))"

definition fetch_with_requests :: "('f, 'raw) crawler \<Rightarrow> ustring \<Rightarrow> ustring option" where
  "fetch_with_requests c url =
     fetch_attempts (bc_requests_get c url) (bc_retry_times c) [0..<bc_retry_times c]"

text \<open>
  \<open>BaseCrawler._fetch_with_selenium\<close>: an exception of \<open>get_driver\<close> is not caught here, one
  of the driver is and gives \<open>None\<close>.
\<close>

definition fetch_with_selenium :: "('f, 'raw) crawler \<Rightarrow> ustring \<Rightarrow> exn + ustring option" where
  "fetch_with_selenium c url =
     (case bc_driver c of
        Inl e \<Rightarrow> Inl e
      | Inr driver \<Rightarrow> (case driver url of Inl e \<Rightarrow> Inr None | Inr page \<Rightarrow> Inr (Some page)))"

text \<open>\<open>BaseCrawler.fetch_page\<close> as \<open>crawl\<close> calls it, with no override of the configuration.\<close>

definition fetch_page :: "('f, 'raw) crawler \<Rightarrow> ustring \<Rightarrow> exn + ustring option" where
  "fetch_page c url =
     (if bc_use_selenium c then fetch_with_selenium c url
      else Inr (fetch_with_requests c url))"

text \<open>
  The loop of \<open>crawl\<close> over the raw records: a record whose normalization raises adds a
  message to \<open>errors\<close>, one that gives \<open>None\<close> is dropped, the others are appended to \<open>items\<close>.
\<close>

fun normalize_loop ::
  "('raw \<Rightarrow> int option \<Rightarrow> exn + CrawledItem option) \<Rightarrow> int option \<Rightarrow>
   CrawledItem list \<Rightarrow> ustring list \<Rightarrow> 'raw list \<Rightarrow> CrawledItem list \<times> ustring list" where
  "normalize_loop nrm goal_id items errors [] = (items, errors)"
| "normalize_loop nrm goal_id items errors (raw_item # rest) =
     (case nrm raw_item goal_id of
        Inr (Some normalized_item) \<Rightarrow>
          normalize_loop nrm goal_id (items @ [normalized_item]) errors rest
      | Inr None \<Rightarrow> normalize_loop nrm goal_id items errors rest
      | Inl e \<Rightarrow>
          normalize_loop nrm goal_id items
            (errors @ [ascii ''Normalization error: '' @ str_exn e]) rest)"

text \<open>The result that both failure branches of \<open>crawl\<close> build.\<close>

definition failed_result :: "ustring \<Rightarrow> ustring list \<Rightarrow> CrawlResult" where
  "failed_result site errors =
     \<lparr> cr_success = False, cr_site_name = site, cr_items = [], cr_total_items = 0,
       cr_errors = errors \<rparr>"

text \<open>
  \<open>BaseCrawler.crawl\<close>. The outer \<open>except\<close> catches what \<open>build_search_url\<close>, \<open>fetch_page\<close> and
  \<open>extract_items\<close> raise, when \<open>errors\<close> is still empty; the exceptions of \<open>normalize_item\<close> are
  caught inside the loop.
\<close>

definition crawl :: "('f, 'raw) crawler \<Rightarrow> 'f \<Rightarrow> int option \<Rightarrow> CrawlResult" where
  "crawl c filters goal_id =
     (case bc_build_search_url c filters of
        Inl e \<Rightarrow> failed_result (bc_site_name c) [str_exn e]
      | Inr search_url \<Rightarrow>
          (case fetch_page c search_url of
             Inl e \<Rightarrow> failed_result (bc_site_name c) [str_exn e]
           | Inr html_content \<Rightarrow>
               if \<not> truthy_str html_content
               then failed_result (bc_site_name c) [ascii ''Failed to fetch page content'']
               else (case bc_extract_items c (the html_content) of
                       Inl e \<Rightarrow> failed_result (bc_site_name c) [str_exn e]
                     | Inr raw_items \<Rightarrow>
                         (case normalize_loop (bc_normalize_item c) goal_id [] [] raw_items of
                            (items, errors) \<Rightarrow>
                              \<lparr> cr_success = True, cr_site_name = bc_site_name c,
                                cr_items = items, cr_total_items = int (length items),
                                cr_errors = errors \<rparr>))))"

text \<open>
  A query of a batch: a dictionary with the keys \<open>site\<close>, \<open>filters\<close> and \<open>goal_id\<close>, as the
  docstring of \<open>crawl_batch\<close> requires and as \<open>crawl_from_query_json\<close> builds it.
\<close>

record 'f query =
  q_site :: ustring
  q_filters :: 'f
  q_goal_id :: "int option"

text \<open>\<open>CrawlerManager.crawl_site\<close>; the manager is its dictionary of crawlers.\<close>

definition crawl_site ::
  "(ustring \<rightharpoonup> ('f, 'raw) crawler) \<Rightarrow> ustring \<Rightarrow> 'f \<Rightarrow> int option \<Rightarrow> CrawlResult" where
  "crawl_site crawlers site_name filters goal_id =
     (case crawlers site_name of
        None \<Rightarrow> failed_result site_name [ascii ''Crawler not found for site: '' @ site_name]
      | Some c \<Rightarrow> crawl c filters goal_id)"

definition crawl_sequential ::
  "(ustring \<rightharpoonup> ('f, 'raw) crawler) \<Rightarrow> 'f query list \<Rightarrow> CrawlResult list" where
  "crawl_sequential crawlers queries =
     map (\<lambda>q. crawl_site crawlers (q_site q) (q_filters q) (q_goal_id q)) queries"

text \<open>
  \<open>CrawlerManager._crawl_parallel\<close>: every query is submitted and the results are appended
  as the tasks complete. \<open>as_completed\<close> is the order in which they complete, a
  rearrangement of the queries that the scheduler decides. \<open>crawl_site\<close> returns a result on
  every path, so \<open>future.result()\<close> does not raise and the \<open>except\<close> branch is not entered.
\<close>

definition crawl_parallel ::
  "(ustring \<rightharpoonup> ('f, 'raw) crawler) \<Rightarrow> ('f query list \<Rightarrow> 'f query list) \<Rightarrow>
   'f query list \<Rightarrow> CrawlResult list" where
  "crawl_parallel crawlers as_completed queries =
     map (\<lambda>q. crawl_site crawlers (q_site q) (q_filters q) (q_goal_id q)) (as_completed queries)"

text \<open>\<open>CrawlerManager.crawl_batch\<close>.\<close>

definition crawl_batch ::
  "(ustring \<rightharpoonup> ('f, 'raw) crawler) \<Rightarrow> ('f query list \<Rightarrow> 'f query list) \<Rightarrow>
   'f query list \<Rightarrow> bool \<Rightarrow> CrawlBatchResult" where
  "crawl_batch crawlers as_completed queries parallel =
     (let results = (if parallel \<and> length queries > 1
                     then crawl_parallel crawlers as_completed queries
                     else crawl_sequential crawlers queries);
          total_items = sum_list (map cr_total_items results)
      in \<lparr> cb_success = list_ex cr_success results,
           cb_results = results,
           cb_total_items = total_items \<rparr>)"

section \<open>Auxiliary descriptions used in the statements\<close>

text \<open>
  The items that survive the duplicate test of \<open>normalize_batch\<close>: the first occurrence of
  each url, in order.
\<close>

fun first_occurrences :: "ustring set \<Rightarrow> CrawledItem list \<Rightarrow> CrawledItem list" where
  "first_occurrences seen [] = []"
| "first_occurrences seen (item # rest) =
     (if ci_url item \<in> seen then first_occurrences seen rest
      else item # first_occurrences (insert (ci_url item) seen) rest)"

text \<open>
  What the loop of \<open>crawl\<close> leaves in \<open>items\<close> and in \<open>errors\<close>: the records that normalize to
  an item, and one message for each record whose normalization raised.
\<close>

definition kept_items ::
  "('raw \<Rightarrow> int option \<Rightarrow> exn + CrawledItem option) \<Rightarrow> int option \<Rightarrow> 'raw list \<Rightarrow>
   CrawledItem list" where
  "kept_items nrm goal_id raw_items =
     List.map_filter
       (\<lambda>raw. case nrm raw goal_id of Inr (Some item) \<Rightarrow> Some item | _ \<Rightarrow> None) raw_items"

definition normalization_errors ::
  "('raw \<Rightarrow> int option \<Rightarrow> exn + CrawledItem option) \<Rightarrow> int option \<Rightarrow> 'raw list \<Rightarrow>
   ustring list" where
  "normalization_errors nrm goal_id raw_items =
     List.map_filter
       (\<lambda>raw. case nrm raw goal_id of
               Inl e \<Rightarrow> Some (ascii ''Normalization error: '' @ str_exn e) | _ \<Rightarrow> None)
       raw_items"

section \<open>Example inputs\<close>

text \<open>
  An item of a given site, url and confidence; a crawler over requests whose pages,
  extracted records (natural numbers) and failing records are given; and the crawlers of
  the scenarios: \<open>X\<close>, whose every attempt times out, \<open>Y\<close>, which extracts five records, \<open>Z\<close>,
  whose second record of three does not normalize, \<open>W\<close>, whose page is fetched and whose
  extraction raises, and \<open>V\<close>, which uses Selenium and whose browser cannot be created.
\<close>

definition example_item :: "ustring \<Rightarrow> ustring \<Rightarrow> real \<Rightarrow> CrawledItem" where
  "example_item site url confidence = \<lparr>
     ci_item_id = url, ci_source_site = site, ci_title = ascii ''flat'', ci_description = None,
     ci_url = url, ci_price = Some 600, ci_price_text = None, ci_price_type = None,
     ci_location = None, ci_city = None, ci_district = None, ci_images = [],
     ci_thumbnail = None, ci_properties = [], ci_crawled_at = ascii ''2024-01-01T00:00:00'',
     ci_goal_id = Some 1, ci_confidence_score = confidence, ci_completeness_score = 1 \<rparr>"

definition example_crawler ::
  "ustring \<Rightarrow> (nat \<Rightarrow> exn + ustring) \<Rightarrow> (exn + nat list) \<Rightarrow> nat list \<Rightarrow> (unit, nat) crawler" where
  "example_crawler site get extracted bad = \<lparr>
     bc_site_name = site, bc_use_selenium = False, bc_retry_times = 3,
     bc_build_search_url = (\<lambda>_. Inr (ascii ''https://'' @ site)),
     bc_extract_items = (\<lambda>_. extracted),
     bc_normalize_item = (\<lambda>raw goal_id.
        if raw \<in> set bad then Inl (Exn (ascii ''bad record''))
        else Inr (Some (example_item site (ascii ''https://'' @ site @ [0x2F, 0x30 + raw]) 0.9))),
     bc_requests_get = (\<lambda>_. get),
     bc_driver = Inl (Exn (ascii ''no browser'')) \<rparr>"

definition crawler_X :: "(unit, nat) crawler" where
  "crawler_X = example_crawler (ascii ''X'') (\<lambda>_. Inl (Exn (ascii ''timeout''))) (Inr []) []"

definition crawler_Y :: "(unit, nat) crawler" where
  "crawler_Y = example_crawler (ascii ''Y'') (\<lambda>_. Inr (ascii ''<html>''))
     (Inr [1, 2, 3, 4, 5]) []"

definition crawler_Z :: "(unit, nat) crawler" where
  "crawler_Z = example_crawler (ascii ''Z'') (\<lambda>_. Inr (ascii ''<html>'')) (Inr [1, 2, 3]) [2]"

definition crawler_W :: "(unit, nat) crawler" where
  "crawler_W = example_crawler (ascii ''W'') (\<lambda>_. Inr (ascii ''<html>''))
     (Inl (Exn (ascii ''parser error''))) []"

definition crawler_V :: "(unit, nat) crawler" where
  "crawler_V = (example_crawler (ascii ''V'') (\<lambda>_. Inr (ascii ''<html>'')) (Inr [1]) [])
     \<lparr> bc_use_selenium := True \<rparr>"

definition crawlers_XY :: "ustring \<rightharpoonup> (unit, nat) crawler" where
  "crawlers_XY = map_of [(ascii ''X'', crawler_X), (ascii ''Y'', crawler_Y)]"

definition queries_XY :: "unit query list" where
  "queries_XY = [\<lparr> q_site = ascii ''X'', q_filters = (), q_goal_id = Some 1 \<rparr>,
                 \<lparr> q_site = ascii ''Y'', q_filters = (), q_goal_id = Some 1 \<rparr>]"

text \<open>
  Two batches: in \<open>batch_D\<close> the first item of \<open>divar\<close> and the item of \<open>sheypoor\<close> have the same
  url; in \<open>batch_P\<close> all urls differ, and \<open>batch_P'\<close> holds the results of \<open>batch_P\<close> in the
  other order.
\<close>

definition item_d1 :: CrawledItem where
  "item_d1 = example_item (ascii ''divar'') (ascii ''https://example.org/1'') 0.9"

definition item_d2 :: CrawledItem where
  "item_d2 = example_item (ascii ''divar'') (ascii ''https://example.org/2'') 0.9"

definition item_s1 :: CrawledItem where
  "item_s1 = example_item (ascii ''sheypoor'') (ascii ''https://example.org/1'') 0.8"

definition item_s3 :: CrawledItem where
  "item_s3 = example_item (ascii ''sheypoor'') (ascii ''https://example.org/3'') 0.8"

definition result_of :: "ustring \<Rightarrow> CrawledItem list \<Rightarrow> CrawlResult" where
  "result_of site items =
     \<lparr> cr_success = True, cr_site_name = site, cr_items = items,
       cr_total_items = int (length items), cr_errors = [] \<rparr>"

definition batch_D :: CrawlBatchResult where
  "batch_D = \<lparr> cb_success = True,
     cb_results = [result_of (ascii ''divar'') [item_d1, item_d2],
                   result_of (ascii ''sheypoor'') [item_s1]],
     cb_total_items = 3 \<rparr>"

definition batch_P :: CrawlBatchResult where
  "batch_P = \<lparr> cb_success = True,
     cb_results = [result_of (ascii ''divar'') [item_d1, item_d2],
                   result_of (ascii ''sheypoor'') [item_s3]],
     cb_total_items = 3 \<rparr>"

definition batch_P' :: CrawlBatchResult where
  "batch_P' = \<lparr> cb_success = True,
     cb_results = [result_of (ascii ''sheypoor'') [item_s3],
                   result_of (ascii ''divar'') [item_d1, item_d2]],
     cb_total_items = 3 \<rparr>"

section \<open>Chatbot schemas (chatbot/schemas.py)\<close>

datatype SearchGoalType =
  RESIDENTIAL_RENT | RESIDENTIAL_PURCHASE | VEHICLE_PURCHASE | VEHICLE_LEASE | ELECTRONICS | GENERAL

datatype BudgetSource = LIQUIDITY | LOAN | LIQUIDITY_LOAN | MONTHLY_PAYMENT

datatype Priority = HIGH | MEDIUM | LOW

text \<open>
  The exceptions of the chatbot: a \<open>ValidationError\<close> of pydantic, with the field that was
  refused, and a \<open>ValueError\<close>, with the call that raised it.
\<close>

datatype error = ValidationError string | ValueError string

record UserProfile =
  up_liquidity :: real
  up_loan_amount :: real
  up_loan_availability_months :: int
  up_max_monthly_payment :: real
  up_existing_obligations :: real

definition total_budget :: "UserProfile \<Rightarrow> real" where
  "total_budget p = up_liquidity p + up_loan_amount p"

definition effective_monthly_budget :: "UserProfile \<Rightarrow> real" where
  "effective_monthly_budget p = up_max_monthly_payment p - up_existing_obligations p"

text \<open>
  The construction of a \<open>UserProfile\<close> from the four fields that \<open>build_user_profile\<close> gives;
  every field is declared with \<open>ge=0\<close>, and \<open>existing_obligations\<close> takes its default.
\<close>

definition UserProfile_new :: "real \<Rightarrow> real \<Rightarrow> int \<Rightarrow> real \<Rightarrow> error + UserProfile" where
  "UserProfile_new liquidity loan_amount loan_availability_months max_monthly_payment =
     (if liquidity < 0 then Inl (ValidationError ''liquidity'')
      else if loan_amount < 0 then Inl (ValidationError ''loan_amount'')
      else if loan_availability_months < 0 then Inl (ValidationError ''loan_availability_months'')
      else if max_monthly_payment < 0 then Inl (ValidationError ''max_monthly_payment'')
      else Inr \<lparr> up_liquidity = liquidity, up_loan_amount = loan_amount,
                 up_loan_availability_months = loan_availability_months,
                 up_max_monthly_payment = max_monthly_payment,
                 up_existing_obligations = 0 \<rparr>)"

record SearchGoal =
  sg_goal_id :: int
  sg_type :: SearchGoalType
  sg_target_location :: ustring
  sg_budget_source :: BudgetSource
  sg_priority :: Priority
  sg_search_type :: ustring
  sg_min_price :: "real option"
  sg_max_price :: "real option"
  sg_max_monthly_lease_payment :: "real option"
  sg_additional_filters :: "(ustring \<times> ustring) list"

text \<open>
  \<open>SearchGoal.validate_price_range\<close>, the validator of \<open>max_price\<close>. \<open>v\<close> is the value of
  \<open>max_price\<close>, which pydantic passes when it is not \<open>None\<close>. The second argument is the entry
  of \<open>min_price\<close> in \<open>values\<close>: \<open>None\<close> when the key is absent, because \<open>min_price\<close> was itself
  refused, and otherwise the validated value, which may be Python's \<open>None\<close>. The test
  \<open>v and values['min_price']\<close> takes both numbers for their truth value.
\<close>

definition validate_price_range :: "real \<Rightarrow> real option option \<Rightarrow> error + real" where
  "validate_price_range v values_min_price =
     (case values_min_price of
        None \<Rightarrow> Inr v
      | Some min_price \<Rightarrow>
          if v \<noteq> 0 \<and> truthy_num min_price
          then (if v < the min_price then Inl (ValidationError ''max_price'') else Inr v)
          else Inr v)"

text \<open>The constraint \<open>ge=0\<close> of an optional number.\<close>

definition ge0 :: "string \<Rightarrow> real option \<Rightarrow> error + real option" where
  "ge0 field x =
     (case x of
        None \<Rightarrow> Inr None
      | Some v \<Rightarrow> if v < 0 then Inl (ValidationError field) else Inr (Some v))"

text \<open>
  The construction of a \<open>SearchGoal\<close>. pydantic validates the fields in the order of their
  declaration: \<open>min_price\<close>, then \<open>max_price\<close> with its constraint and then its validator,
  then \<open>max_monthly_lease_payment\<close>. The first refusal is the error.
\<close>

definition SearchGoal_new ::
  "int \<Rightarrow> SearchGoalType \<Rightarrow> ustring \<Rightarrow> BudgetSource \<Rightarrow> Priority \<Rightarrow> ustring \<Rightarrow>
   real option \<Rightarrow> real option \<Rightarrow> real option \<Rightarrow> (ustring \<times> ustring) list \<Rightarrow> error + SearchGoal" where
  "SearchGoal_new goal_id type target_location budget_source priority search_type
       min_price max_price max_monthly_lease_payment additional_filters =
     (let min_result = ge0 ''min_price'' min_price;
          values_min_price = (case min_result of Inl e \<Rightarrow> None | Inr m \<Rightarrow> Some m);
          max_result =
            (case ge0 ''max_price'' max_price of
               Inl e \<Rightarrow> Inl e
             | Inr None \<Rightarrow> Inr None
             | Inr (Some v) \<Rightarrow>
                 (case validate_price_range v values_min_price of
                    Inl e \<Rightarrow> Inl e
                  | Inr v' \<Rightarrow> Inr (Some v')));
          lease_result = ge0 ''max_monthly_lease_payment'' max_monthly_lease_payment
      in case min_result of
           Inl e \<Rightarrow> Inl e
         | Inr min_price' \<Rightarrow>
             (case max_result of
                Inl e \<Rightarrow> Inl e
              | Inr max_price' \<Rightarrow>
                  (case lease_result of
                     Inl e \<Rightarrow> Inl e
                   | Inr lease' \<Rightarrow>
                       Inr \<lparr> sg_goal_id = goal_id, sg_type = type,
                             sg_target_location = target_location,
                             sg_budget_source = budget_source, sg_priority = priority,
                             sg_search_type = search_type, sg_min_price = min_price',
                             sg_max_price = max_price',
                             sg_max_monthly_lease_payment = lease',
                             sg_additional_filters = additional_filters \<rparr>)))"

text \<open>
  \<open>StructuredQuery\<close>, without its \<open>context\<close>, which is always empty, and its time stamp. Its
  construction refuses an empty list of goals (\<open>validate_goals\<close>) and a confidence outside
  \<open>[0, 1]\<close>.
\<close>

record StructuredQuery =
  qy_user_profile :: UserProfile
  qy_search_goals :: "SearchGoal list"
  qy_is_multi_goal :: bool
  qy_confidence :: real

definition StructuredQuery_new ::
  "UserProfile \<Rightarrow> SearchGoal list \<Rightarrow> bool \<Rightarrow> real \<Rightarrow> error + StructuredQuery" where
  "StructuredQuery_new user_profile search_goals is_multi_goal confidence =
     (if search_goals = [] then Inl (ValidationError ''search_goals'')
      else if confidence < 0 \<or> 1 < confidence then Inl (ValidationError ''confidence'')
      else Inr \<lparr> qy_user_profile = user_profile, qy_search_goals = search_goals,
                 qy_is_multi_goal = is_multi_goal, qy_confidence = confidence \<rparr>)"

text \<open>The five sentences that \<open>get_clarification_questions\<close> can ask.\<close>

datatype question =
  ASK_BUDGET | ASK_LOCATION | ASK_WHAT_TO_COMPARE | ASK_ADVICE_TOPIC | ASK_TO_EXPLAIN

text \<open>
  \<open>ChatbotResponse\<close>, without its \<open>message\<close>, the text shown to the user. \<open>errors\<close> holds the
  exceptions whose \<open>str\<close> the source stores. The construction refuses a confidence outside
  \<open>[0, 1]\<close>.
\<close>

record ChatbotResponse =
  resp_success :: bool
  resp_query :: "StructuredQuery option"
  resp_confidence :: real
  resp_requires_clarification :: bool
  resp_clarification_questions :: "question list"
  resp_errors :: "error list"

definition ChatbotResponse_new ::
  "bool \<Rightarrow> StructuredQuery option \<Rightarrow> real \<Rightarrow> bool \<Rightarrow> question list \<Rightarrow> error list \<Rightarrow>
   error + ChatbotResponse" where
  "ChatbotResponse_new success query confidence requires_clarification questions errors =
     (if confidence < 0 \<or> 1 < confidence then Inl (ValidationError ''confidence'')
      else Inr \<lparr> resp_success = success, resp_query = query, resp_confidence = confidence,
                 resp_requires_clarification = requires_clarification,
                 resp_clarification_questions = questions, resp_errors = errors \<rparr>)"

section \<open>Regular expressions\<close>

text \<open>
  The patterns of the source are named by the list they stand in and their index in it.
  The \<open>re\<close> module is not part of the repository: the model takes the regular-expression
  engine as a parameter, the function that gives for a pattern and a text the matches of
  \<open>re.finditer(pattern, text, re.IGNORECASE)\<close> from left to right, each with \<open>group(0)\<close>,
  \<open>group(1)\<close>, \<open>start()\<close> and \<open>end()\<close>. \<open>re.search\<close> finds a match exactly when \<open>finditer\<close> has one.

  \<open>MONEY_PATTERN 0\<close> is a number, then a word for million (or the letter \<open>M\<close>), then optionally the
  currency; \<open>MONEY_PATTERN 1\<close> a number and a word for thousand (or \<open>k\<close>); \<open>MONEY_PATTERN 2\<close> a number and a
  word for billion (U+0645 U+06CC U+0644 U+06CC U+0627 U+0631 U+062F, or
  U+0628 U+06CC U+0644 U+06CC U+0648 U+0646, or \<open>b\<close>); \<open>MONEY_PATTERN 3\<close> a number with the currency.
  The patterns \<open>MONTHLY_PATTERN\<close> and \<open>LOAN_PATTERN\<close> are a marker word with a number and a word for million;
  the patterns \<open>TIME_PATTERN\<close> capture \<open>(\d+)\<close> before the word for month; the patterns \<open>LOCATION_PATTERN\<close>
  capture what follows a preposition or a word for district; \<open>INTENT_PATTERN\<close> are the patterns of
  the intent classifier.
\<close>

datatype IntentType = SEARCH | COMPARE | ADVICE | CALCULATE | CLARIFY | GREETING | UNKNOWN

datatype pattern =
  MONEY_PATTERN nat | MONTHLY_PATTERN nat | LOAN_PATTERN nat | TIME_PATTERN nat
  | LOCATION_PATTERN nat | INTENT_PATTERN IntentType nat

record re_match =
  m_group0 :: ustring
  m_group1 :: ustring
  m_start :: nat
  m_end :: nat

type_synonym regex_engine = "pattern \<Rightarrow> ustring \<Rightarrow> re_match list"

definition re_search :: "regex_engine \<Rightarrow> pattern \<Rightarrow> ustring \<Rightarrow> bool" where
  "re_search re p text = (re p text \<noteq> [])"

section \<open>Intent classifier (chatbot/intent\_classifier.py)\<close>

text \<open>
  \<open>intent_keywords\<close> and \<open>patterns\<close>, dictionaries in the order of their keys. The greeting
  keyword \<open>[0x633, 0x644, 0x627, 0x645]\<close> is the word salam.
\<close>

definition intent_keywords :: "(IntentType \<times> ustring list) list" where
  "intent_keywords = [
     (SEARCH, [[0x645, 0x6CC, 0x200C, 0x62E, 0x648, 0x627, 0x647, 0x645],
          [0x628, 0x62E, 0x648, 0x627, 0x647, 0x645],
          [0x628, 0x62E, 0x648, 0x627, 0x647, 0x6CC, 0x645],
          [0x628, 0x631, 0x631, 0x633, 0x6CC],
          [0x62C, 0x633, 0x62A, 0x62C, 0x648],
          [0x67E, 0x6CC, 0x62F, 0x627, 0x20, 0x6A9, 0x646, 0x645],
          [0x62E, 0x631, 0x6CC, 0x62F], [0x62A, 0x647, 0x6CC, 0x647],
          [0x628, 0x6AF, 0x6CC, 0x631, 0x645],
          [0x646, 0x6AF, 0x627, 0x647, 0x20, 0x6A9, 0x646, 0x645],
          [0x628, 0x628, 0x6CC, 0x646, 0x645],
          [0x686, 0x6A9, 0x20, 0x6A9, 0x646, 0x645]]),
     (COMPARE, [[0x645, 0x642, 0x627, 0x6CC, 0x633, 0x647],
          [0x645, 0x642, 0x627, 0x6CC, 0x633, 0x647, 0x20, 0x6A9, 0x646],
          [0x628, 0x627, 0x647, 0x645],
          [0x6A9, 0x62F, 0x648, 0x645, 0x20, 0x628, 0x647, 0x62A, 0x631],
          [0x62A, 0x641, 0x627, 0x648, 0x62A], [0x6A9, 0x62F, 0x627, 0x645],
          [0x6A9, 0x62F, 0x627, 0x645, 0x6CC, 0x6A9],
          [0x628, 0x647, 0x62A, 0x631, 0x647],
          [0x628, 0x647, 0x62A, 0x631, 0x6CC, 0x646]]),
     (ADVICE, [[0x67E, 0x6CC, 0x634, 0x646, 0x647, 0x627, 0x62F],
          [0x646, 0x638, 0x631],
          [0x631, 0x627, 0x647, 0x646, 0x645, 0x627, 0x6CC, 0x6CC],
          [0x6A9, 0x645, 0x6A9], [0x645, 0x634, 0x627, 0x648, 0x631, 0x647],
          [0x686, 0x637, 0x648, 0x631], [0x686, 0x6AF, 0x648, 0x646, 0x647],
          [0x631, 0x627, 0x647],
          [0x628, 0x647, 0x62A, 0x631, 0x6CC, 0x646, 0x20, 0x631, 0x627, 0x647]]),
     (CALCULATE, [[0x645, 0x62D, 0x627, 0x633, 0x628, 0x647],
          [0x62D, 0x633, 0x627, 0x628], [0x686, 0x642, 0x62F, 0x631],
          [0x645, 0x6CC, 0x634, 0x647],
          [0x645, 0x6CC, 0x62A, 0x648, 0x646, 0x645],
          [0x645, 0x6CC, 0x62A, 0x648, 0x627, 0x646, 0x645],
          [0x62A, 0x648, 0x627, 0x646, 0x627, 0x6CC, 0x6CC],
          [0x642, 0x62F, 0x631, 0x62A, 0x20, 0x62E, 0x631, 0x6CC, 0x62F]]),
     (GREETING, [[0x633, 0x644, 0x627, 0x645], [0x62F, 0x631, 0x648, 0x62F],
          [0x635, 0x628, 0x62D, 0x20, 0x628, 0x62E, 0x6CC, 0x631],
          [0x639, 0x635, 0x631, 0x20, 0x628, 0x62E, 0x6CC, 0x631],
          [0x62E, 0x648, 0x628, 0x6CC], [0x686, 0x637, 0x648, 0x631, 0x6CC],
          [0x686, 0x637, 0x648, 0x631, 0x647], [0x647, 0x6CC]])]"

definition intent_patterns :: "(IntentType \<times> pattern list) list" where
  "intent_patterns = [
     (SEARCH, [INTENT_PATTERN SEARCH 0, INTENT_PATTERN SEARCH 1, INTENT_PATTERN SEARCH 2]),
     (COMPARE, [INTENT_PATTERN COMPARE 0, INTENT_PATTERN COMPARE 1, INTENT_PATTERN COMPARE 2]),
     (ADVICE, [INTENT_PATTERN ADVICE 0, INTENT_PATTERN ADVICE 1, INTENT_PATTERN ADVICE 2]),
     (CALCULATE, [INTENT_PATTERN CALCULATE 0, INTENT_PATTERN CALCULATE 1, INTENT_PATTERN CALCULATE 2])]"

text \<open>
  \<open>classify_by_keywords\<close>: an intent of which a keyword occurs in the lowered text gets the
  score \<open>min(matches / len(keywords) * 2, 1.0)\<close>; the scores are sorted in descending order.
\<close>

definition keyword_score :: "ustring \<Rightarrow> IntentType \<times> ustring list \<Rightarrow> (IntentType \<times> real) list" where
  "keyword_score text_lower entry =
     (case entry of (intent_type, keywords) \<Rightarrow>
        (let matches = length (filter (\<lambda>keyword. py_in keyword text_lower) keywords)
         in if matches > 0
            then [(intent_type, min (real matches / real (length keywords) * 2) 1)]
            else []))"

definition classify_by_keywords :: "ustring \<Rightarrow> (IntentType \<times> real) list" where
  "classify_by_keywords text =
     (let text_lower = py_lower text;
          scores = concat (map (keyword_score text_lower) intent_keywords)
      in sort_reverse snd scores)"

text \<open>\<open>classify_by_patterns\<close>: an intent of which a pattern matches gets the score 0.9.\<close>

definition pattern_score ::
  "regex_engine \<Rightarrow> ustring \<Rightarrow> IntentType \<times> pattern list \<Rightarrow> (IntentType \<times> real) list" where
  "pattern_score re text entry =
     (case entry of (intent_type, patterns) \<Rightarrow>
        if list_ex (\<lambda>p. re_search re p text) patterns then [(intent_type, 0.9)] else [])"

definition classify_by_patterns :: "regex_engine \<Rightarrow> ustring \<Rightarrow> (IntentType \<times> real) list" where
  "classify_by_patterns re text =
     sort_reverse snd (concat (map (pattern_score re text) intent_patterns))"

text \<open>
  The two loops of \<open>classify\<close> that fill \<open>combined_scores\<close>, a dictionary in insertion order:
  an assignment to a key that is present keeps its place, a new key goes to the end.
\<close>

definition dict_get :: "('k \<times> 'v) list \<Rightarrow> 'k \<Rightarrow> 'v \<Rightarrow> 'v" where
  "dict_get d k dflt = (case map_of d k of None \<Rightarrow> dflt | Some v \<Rightarrow> v)"

definition add_scores ::
  "real \<Rightarrow> (IntentType \<times> real) list \<Rightarrow> (IntentType \<times> real) list \<Rightarrow> (IntentType \<times> real) list" where
  "add_scores weight results combined_scores =
     fold (\<lambda>(intent, score) cs. AList.update intent (dict_get cs intent 0 + score * weight) cs)
       results combined_scores"

text \<open>
  \<open>max(items, key=lambda x: x[1])\<close> on a list that is not empty: the first item of the
  greatest key. \<open>best\<close> is the greatest so far.
\<close>

fun first_max :: "'a \<times> real \<Rightarrow> ('a \<times> real) list \<Rightarrow> 'a \<times> real" where
  "first_max best [] = best"
| "first_max best (x # xs) = first_max (if snd best < snd x then x else best) xs"

text \<open>The words that the last test of \<open>classify\<close> looks for.\<close>

definition search_indicators :: "ustring list" where
  "search_indicators = [[0x645, 0x6CC, 0x200C, 0x62E, 0x648, 0x627, 0x647, 0x645],
    [0x628, 0x62E, 0x648, 0x627, 0x647, 0x645], [0x62E, 0x631, 0x6CC, 0x62F],
    [0x62A, 0x647, 0x6CC, 0x647]]"

text \<open>
  \<open>IntentClassifier.classify\<close>. When \<open>combined_scores\<close> is not empty, \<open>max_score\<close> is the
  greatest of its values, each value is divided by it and capped at 1.0, and the first
  item of the greatest value is returned. Every value is positive (lemma
  \<open>add_scores_positive\<close> below), so the division is never by zero.
\<close>

definition classify :: "regex_engine \<Rightarrow> ustring \<Rightarrow> IntentType \<times> real" where
  "classify re text =
     (if text = [] \<or> length (py_strip text) < 2 then (UNKNOWN, 0)
      else
        (let keyword_results = classify_by_keywords text;
             pattern_results = classify_by_patterns re text;
             combined_scores = add_scores 0.6 keyword_results [];
             combined_scores = add_scores 0.4 pattern_results combined_scores
         in case combined_scores of
              c # cs \<Rightarrow>
                (let max_score = fold max (map snd cs) (snd c);
                     normalize = (\<lambda>(intent, s). (intent, min (s / max_score) 1))
                 in first_max (normalize c) (map normalize cs))
            | [] \<Rightarrow>
                if list_ex (\<lambda>word. py_in word (py_lower text)) search_indicators
                then (SEARCH, 0.7)
                else (UNKNOWN, 0.3)))"

definition requires_clarification :: "IntentType \<Rightarrow> real \<Rightarrow> bool" where
  "requires_clarification intent confidence =
     (if confidence < 0.5 then True
      else if intent = UNKNOWN then True
      else False)"

text \<open>\<open>get_clarification_questions\<close>; its four words are budget, money, place and district.\<close>

definition get_clarification_questions :: "IntentType \<Rightarrow> ustring \<Rightarrow> question list" where
  "get_clarification_questions intent text =
     (if intent = SEARCH then
        (if \<not> py_in [0x628, 0x648, 0x62F, 0x62C, 0x647] (py_lower text)
            \<and> \<not> py_in [0x67E, 0x648, 0x644] (py_lower text)
         then [ASK_BUDGET] else [])
        @ (if \<not> py_in [0x645, 0x6A9, 0x627, 0x646] (py_lower text)
              \<and> \<not> py_in [0x645, 0x646, 0x637, 0x642, 0x647] (py_lower text)
           then [ASK_LOCATION] else [])
      else if intent = COMPARE then [ASK_WHAT_TO_COMPARE]
      else if intent = ADVICE then [ASK_ADVICE_TOPIC]
      else if intent = UNKNOWN then [ASK_TO_EXPLAIN]
      else [])"

section \<open>Entity extractor (chatbot/entity\_extractor.py)\<close>

text \<open>
  \<open>int\<close> and \<open>float\<close> on the strings that the capture groups \<open>(\d+)\<close> and
  \<open>(\d+(?:\.\d+)?)\<close> give: a run of decimal digits, and such a run with an optional
  fraction. \<open>\d\<close> matches, and Python reads, every decimal digit of Unicode: the digits
  come in rows of ten consecutive code points, and \<open>digit_rows\<close> holds the zero of each row
  (Unicode 14.0; the first row is ASCII, the next two are the Arabic-Indic ones). Every
  string that is not of this form is taken to raise \<open>ValueError\<close>, which is \<open>None\<close> here.
\<close>

definition digit_rows :: "nat list" where
  "digit_rows = [0x30, 0x660, 0x6F0, 0x7C0, 0x966, 0x9E6, 0xA66, 0xAE6, 0xB66, 0xBE6, 0xC66,
     0xCE6, 0xD66, 0xDE6, 0xE50, 0xED0, 0xF20, 0x1040, 0x1090, 0x17E0, 0x1810, 0x1946, 0x19D0,
     0x1A80, 0x1A90, 0x1B50, 0x1BB0, 0x1C40, 0x1C50, 0xA620, 0xA8D0, 0xA900, 0xA9D0, 0xA9F0,
     0xAA50, 0xABF0, 0xFF10, 0x104A0, 0x10D30, 0x11066, 0x110F0, 0x11136, 0x111D0, 0x112F0,
     0x11450, 0x114D0, 0x11650, 0x116C0, 0x11730, 0x118E0, 0x11950, 0x11C50, 0x11D50, 0x11DA0,
     0x16A60, 0x16AC0, 0x16B50, 0x1D7CE, 0x1D7D8, 0x1D7E2, 0x1D7EC, 0x1D7F6, 0x1E140, 0x1E2F0,
     0x1E950, 0x1FBF0]"

definition digit_value :: "nat \<Rightarrow> nat option" where
  "digit_value c =
     (case find (\<lambda>zero. zero \<le> c \<and> c \<le> zero + 9) digit_rows of
        None \<Rightarrow> None
      | Some zero \<Rightarrow> Some (c - zero))"

fun digits_value :: "nat \<Rightarrow> ustring \<Rightarrow> nat option" where
  "digits_value acc [] = Some acc"
| "digits_value acc (c # cs) =
     (case digit_value c of None \<Rightarrow> None | Some d \<Rightarrow> digits_value (10 * acc + d) cs)"

definition py_int :: "ustring \<Rightarrow> nat option" where
  "py_int s = (if s = [] then None else digits_value 0 s)"

definition py_float :: "ustring \<Rightarrow> real option" where
  "py_float s =
     (let int_part = takeWhile (\<lambda>c. c \<noteq> 0x2E) s;
          rest = dropWhile (\<lambda>c. c \<noteq> 0x2E) s
      in case rest of
           [] \<Rightarrow> map_option real (py_int int_part)
         | dot # fraction \<Rightarrow>
             (case py_int int_part of
                None \<Rightarrow> None
              | Some i \<Rightarrow>
                  (case py_int fraction of
                     None \<Rightarrow> None
                   | Some f \<Rightarrow> Some (real i + real f / 10 ^ length fraction))))"

text \<open>
  The two unit words that \<open>_normalize_money\<close> looks for: thousand and billion. The second
  word for billion that \<open>MONEY_PATTERN 2\<close> accepts is \<open>bilyun\<close>.
\<close>

definition hezar :: ustring where
  "hezar = [0x647, 0x632, 0x627, 0x631]"

definition miliard :: ustring where
  "miliard = [0x645, 0x6CC, 0x644, 0x6CC, 0x627, 0x631, 0x62F]"

definition bilyun :: ustring where
  "bilyun = [0x628, 0x6CC, 0x644, 0x6CC, 0x648, 0x646]"

text \<open>
  \<open>EntityExtractor._normalize_money\<close>. The \<open>ValueError\<close> of \<open>float\<close> is caught and gives 0.0.
\<close>

definition normalize_money :: "ustring \<Rightarrow> ustring \<Rightarrow> real" where
  "normalize_money value unit =
     (case py_float (filter (\<lambda>c. c \<noteq> 0x2C) value) of
        None \<Rightarrow> 0
      | Some num_value \<Rightarrow>
          if py_in hezar (py_lower unit) \<or> py_in (ascii ''k'') (py_lower unit)
          then num_value / 1000
          else if py_in miliard (py_lower unit) \<or> py_in (ascii ''b'') (py_lower unit)
          then num_value * 1000
          else num_value)"

text \<open>The default of the parameter \<open>unit\<close>.\<close>

definition default_unit :: ustring where
  "default_unit = ascii ''million''"

definition money_patterns :: "pattern list" where
  "money_patterns = [MONEY_PATTERN 0, MONEY_PATTERN 1, MONEY_PATTERN 2, MONEY_PATTERN 3]"

definition monthly_patterns :: "pattern list" where
  "monthly_patterns = [MONTHLY_PATTERN 0, MONTHLY_PATTERN 1, MONTHLY_PATTERN 2]"

definition loan_patterns :: "pattern list" where
  "loan_patterns = [LOAN_PATTERN 0, LOAN_PATTERN 1, LOAN_PATTERN 2]"

definition time_patterns :: "pattern list" where
  "time_patterns = [TIME_PATTERN 0, TIME_PATTERN 1, TIME_PATTERN 2]"

definition location_patterns :: "pattern list" where
  "location_patterns = [LOCATION_PATTERN 0, LOCATION_PATTERN 1, LOCATION_PATTERN 2]"

record ExtractedEntity =
  ee_entity_type :: ustring
  ee_value :: real
  ee_confidence :: real
  ee_start_pos :: nat
  ee_end_pos :: nat
  ee_raw_text :: ustring

text \<open>
  \<open>extract_money_entities\<close>: for each pattern in order, one entity for each match; the unit
  given to \<open>_normalize_money\<close> is the whole match.
\<close>

definition money_entity :: "re_match \<Rightarrow> ExtractedEntity" where
  "money_entity m =
     \<lparr> ee_entity_type = ascii ''money'',
       ee_value = normalize_money (m_group1 m) (m_group0 m),
       ee_confidence = 0.9,
       ee_start_pos = m_start m, ee_end_pos = m_end m, ee_raw_text = m_group0 m \<rparr>"

definition extract_money_entities :: "regex_engine \<Rightarrow> ustring \<Rightarrow> ExtractedEntity list" where
  "extract_money_entities re text =
     concat (map (\<lambda>pattern. map money_entity (re pattern text)) money_patterns)"

text \<open>
  The loops of \<open>extract_loan_info\<close> and \<open>extract_monthly_payment\<close> over their patterns: the
  \<open>break\<close> leaves the loop over the matches only, so each pattern that has a match assigns
  the value of its first match, with the default unit, and the last such pattern decides.
\<close>

fun amount_loop :: "regex_engine \<Rightarrow> ustring \<Rightarrow> real \<Rightarrow> pattern list \<Rightarrow> real" where
  "amount_loop re text amount [] = amount"
| "amount_loop re text amount (pattern # rest) =
     amount_loop re text
       (case re pattern text of
          [] \<Rightarrow> amount
        | m # _ \<Rightarrow> normalize_money (m_group1 m) default_unit)
       rest"

text \<open>The loop over the time patterns; \<open>int\<close> is not guarded.\<close>

fun months_loop :: "regex_engine \<Rightarrow> ustring \<Rightarrow> int \<Rightarrow> pattern list \<Rightarrow> error + int" where
  "months_loop re text months [] = Inr months"
| "months_loop re text months (pattern # rest) =
     (case re pattern text of
        [] \<Rightarrow> months_loop re text months rest
      | m # _ \<Rightarrow>
          (case py_int (m_group1 m) of
             None \<Rightarrow> Inl (ValueError ''int'')
           | Some n \<Rightarrow> months_loop re text (int n) rest))"

definition extract_loan_info :: "regex_engine \<Rightarrow> ustring \<Rightarrow> error + real \<times> int" where
  "extract_loan_info re text =
     (let loan_amount = amount_loop re text 0 loan_patterns
      in case months_loop re text 0 time_patterns of
           Inl e \<Rightarrow> Inl e
         | Inr loan_months \<Rightarrow> Inr (loan_amount, loan_months))"

definition extract_monthly_payment :: "regex_engine \<Rightarrow> ustring \<Rightarrow> real" where
  "extract_monthly_payment re text = amount_loop re text 0 monthly_patterns"

definition location_keywords :: "ustring list" where
  "location_keywords = [[0x62A, 0x647, 0x631, 0x627, 0x646],
    [0x627, 0x6A9, 0x628, 0x627, 0x62A, 0x627, 0x646],
    [0x648, 0x644, 0x6CC, 0x639, 0x635, 0x631],
    [0x62A, 0x62C, 0x631, 0x6CC, 0x634], [0x648, 0x646, 0x6A9],
    [0x67E, 0x627, 0x633, 0x62F, 0x627, 0x631, 0x627, 0x646],
    [0x634, 0x647, 0x631, 0x6A9, 0x20, 0x63A, 0x631, 0x628],
    [0x633, 0x639, 0x627, 0x62F, 0x62A, 0x20, 0x622, 0x628, 0x627, 0x62F],
    [0x645, 0x6CC, 0x631, 0x62F, 0x627, 0x645, 0x627, 0x62F],
    [0x6AF, 0x6CC, 0x634, 0x627],
    [0x62C, 0x646, 0x62A, 0x20, 0x622, 0x628, 0x627, 0x62F]]"

text \<open>
  \<open>extract_location\<close>: the known places that occur in the text, then the captures of the
  location patterns that are longer than two characters once stripped. \<open>list(set(...))\<close>
  removes the duplicates and leaves the order open; \<open>remdups\<close> fixes one order here, and
  no statement below depends on it.
\<close>

definition location_captures :: "regex_engine \<Rightarrow> ustring \<Rightarrow> ustring list" where
  "location_captures re text =
     concat (map (\<lambda>pattern.
        filter (\<lambda>location. location \<noteq> [] \<and> length location > 2)
          (map (\<lambda>m. py_strip (m_group1 m)) (re pattern text))) location_patterns)"

definition extract_location :: "regex_engine \<Rightarrow> ustring \<Rightarrow> ustring list" where
  "extract_location re text =
     remdups (filter (\<lambda>keyword. py_in keyword text) location_keywords
              @ location_captures re text)"

text \<open>The dictionary \<open>search_info\<close> of \<open>extract_search_type\<close>.\<close>

record search_info =
  si_type :: "SearchGoalType option"
  si_search_type :: ustring
  si_is_rent :: bool
  si_is_purchase :: bool
  si_is_lease :: bool

definition any_in :: "ustring list \<Rightarrow> ustring \<Rightarrow> bool" where
  "any_in keywords text = list_ex (\<lambda>keyword. py_in keyword text) keywords"

definition rahn_kamel :: ustring where
  "rahn_kamel = [0x631, 0x647, 0x646, 0x20, 0x6A9, 0x627, 0x645, 0x644]"

definition rahn_va_ejare :: ustring where
  "rahn_va_ejare = [0x631, 0x647, 0x646, 0x20, 0x648, 0x20, 0x627, 0x62C, 0x627, 0x631, 0x647]"

text \<open>\<open>extract_search_type\<close>: the four tests of the source in their order.\<close>

definition extract_search_type :: "ustring \<Rightarrow> search_info" where
  "extract_search_type text =
     (let search_info = \<lparr> si_type = None, si_search_type = [], si_is_rent = False,
                          si_is_purchase = False, si_is_lease = False \<rparr>;
          text_lower = py_lower text;
          search_info =
            (if any_in [[0x631, 0x647, 0x646], [0x627, 0x62C, 0x627, 0x631, 0x647],
              [0x631, 0x647, 0x646, 0x20, 0x6A9, 0x627, 0x645, 0x644]] text_lower
             then search_info \<lparr> si_is_rent := True, si_type := Some RESIDENTIAL_RENT,
                    si_search_type :=
                      (if py_in rahn_kamel text_lower then rahn_kamel else rahn_va_ejare) \<rparr>
             else search_info);
          search_info =
            (if any_in [[0x62E, 0x631, 0x6CC, 0x62F], [0x62A, 0x647, 0x6CC, 0x647],
              [0x628, 0x6AF, 0x6CC, 0x631, 0x645]] text_lower
             then (let search_info = search_info \<lparr> si_is_purchase := True \<rparr>
                   in if si_type search_info = None
                      then search_info \<lparr> si_type := Some RESIDENTIAL_PURCHASE \<rparr>
                      else search_info)
             else search_info);
          search_info =
            (if any_in [[0x645, 0x627, 0x634, 0x6CC, 0x646],
              [0x62E, 0x648, 0x62F, 0x631, 0x648],
              [0x627, 0x62A, 0x648, 0x645, 0x628, 0x6CC, 0x644]] text_lower
             then (if si_is_purchase search_info
                   then search_info \<lparr> si_type := Some VEHICLE_PURCHASE \<rparr>
                   else if si_is_lease search_info
                   then search_info \<lparr> si_type := Some VEHICLE_LEASE \<rparr>
                   else search_info)
             else search_info);
          search_info =
            (if any_in [[0x644, 0x6CC, 0x632, 0x6CC, 0x646, 0x6AF],
              [0x642, 0x633, 0x637], [0x627, 0x642, 0x633, 0x627, 0x637]] text_lower
             then (let search_info = search_info \<lparr> si_is_lease := True \<rparr>
                   in if py_in [0x645, 0x627, 0x634, 0x6CC, 0x646] text_lower \<or> py_in [0x62E, 0x648, 0x62F, 0x631, 0x648] text_lower
                      then search_info \<lparr> si_type := Some VEHICLE_LEASE \<rparr>
                      else search_info)
             else search_info)
      in search_info)"

text \<open>
  The dictionary of \<open>extract_all_entities\<close>; the key \<open>primary_liquidity\<close> is present only when
  a money entity was found, and holds the value of the first one.
\<close>

record entities =
  en_money_entities :: "ExtractedEntity list"
  en_locations :: "ustring list"
  en_loan_info :: "real \<times> int"
  en_monthly_payment :: real
  en_search_type :: search_info
  en_primary_liquidity :: "real option"

definition extract_all_entities :: "regex_engine \<Rightarrow> ustring \<Rightarrow> error + entities" where
  "extract_all_entities re text =
     (let money_entities = extract_money_entities re text;
          locations = extract_location re text
      in case extract_loan_info re text of
           Inl e \<Rightarrow> Inl e
         | Inr loan_info \<Rightarrow>
             Inr \<lparr> en_money_entities = money_entities,
                   en_locations = locations,
                   en_loan_info = loan_info,
                   en_monthly_payment = extract_monthly_payment re text,
                   en_search_type = extract_search_type text,
                   en_primary_liquidity =
                     (case money_entities of [] \<Rightarrow> None | e # _ \<Rightarrow> Some (ee_value e)) \<rparr>)"

definition build_user_profile :: "entities \<Rightarrow> error + UserProfile" where
  "build_user_profile ents =
     (case en_loan_info ents of (loan_amount, loan_months) \<Rightarrow>
        (let monthly_payment = en_monthly_payment ents;
             primary_liquidity = (case en_primary_liquidity ents of None \<Rightarrow> 0 | Some v \<Rightarrow> v)
         in UserProfile_new primary_liquidity loan_amount loan_months monthly_payment))"

text \<open>The \<open>if\<close>/\<open>elif\<close> chain of \<open>build_search_goals\<close> that determines the budget source.\<close>

definition determine_budget_source :: "UserProfile \<Rightarrow> BudgetSource" where
  "determine_budget_source user_profile =
     (if up_loan_amount user_profile > 0 \<and> up_liquidity user_profile > 0 then LIQUIDITY_LOAN
      else if up_loan_amount user_profile > 0 then LOAN
      else if up_max_monthly_payment user_profile > 0 then MONTHLY_PAYMENT
      else LIQUIDITY)"

text \<open>
  The loop of \<open>build_search_goals\<close> over the locations: one goal for each, with the next
  \<open>goal_id\<close>; the first has priority high, the others medium.
\<close>

fun goals_loop ::
  "UserProfile \<Rightarrow> SearchGoalType \<Rightarrow> BudgetSource \<Rightarrow> ustring \<Rightarrow> int \<Rightarrow> SearchGoal list \<Rightarrow>
   ustring list \<Rightarrow> error + SearchGoal list" where
  "goals_loop user_profile search_type budget_source label goal_id goals [] = Inr goals"
| "goals_loop user_profile search_type budget_source label goal_id goals (location # rest) =
     (case SearchGoal_new goal_id search_type location budget_source
             (if goal_id = 1 then HIGH else MEDIUM) label None
             (if total_budget user_profile > 0 then Some (total_budget user_profile) else None)
             (if up_max_monthly_payment user_profile > 0
              then Some (up_max_monthly_payment user_profile) else None) [] of
        Inl e \<Rightarrow> Inl e
      | Inr goal \<Rightarrow>
          goals_loop user_profile search_type budget_source label (goal_id + 1)
            (goals @ [goal]) rest)"

definition build_search_goals :: "entities \<Rightarrow> UserProfile \<Rightarrow> error + SearchGoal list" where
  "build_search_goals ents user_profile =
     (let search_info = en_search_type ents;
          locations = en_locations ents;
          goal_id = 1;
          search_type = (case si_type search_info of None \<Rightarrow> GENERAL | Some t \<Rightarrow> t);
          budget_source = determine_budget_source user_profile
      in if locations \<noteq> []
         then goals_loop user_profile search_type budget_source (si_search_type search_info)
                goal_id [] locations
         else (case SearchGoal_new goal_id search_type [] budget_source HIGH
                      (si_search_type search_info) None
                      (if total_budget user_profile > 0
                       then Some (total_budget user_profile) else None)
                      (if up_max_monthly_payment user_profile > 0
                       then Some (up_max_monthly_payment user_profile) else None) [] of
                 Inl e \<Rightarrow> Inl e
               | Inr goal \<Rightarrow> Inr [goal]))"

section \<open>Query builder and engine (chatbot/nlu.py, chatbot/engine.py)\<close>

text \<open>\<open>NLUProcessor._calculate_confidence\<close>.\<close>

definition calculate_confidence :: "real \<Rightarrow> entities \<Rightarrow> UserProfile \<Rightarrow> real" where
  "calculate_confidence intent_confidence ents user_profile =
     (let confidence = intent_confidence * 0.4;
          entity_confidence = 0;
          entity_confidence = (if en_money_entities ents \<noteq> []
                               then entity_confidence + 0.3 else entity_confidence);
          entity_confidence = (if en_locations ents \<noteq> []
                               then entity_confidence + 0.2 else entity_confidence);
          entity_confidence = (if si_type (en_search_type ents) \<noteq> None
                               then entity_confidence + 0.1 else entity_confidence);
          confidence = confidence + entity_confidence * 0.6;
          confidence = (if total_budget user_profile = 0
                           \<and> up_max_monthly_payment user_profile = 0
                        then confidence * 0.7 else confidence)
      in min confidence 1)"

text \<open>The dictionary that \<open>NLUProcessor.process\<close> returns.\<close>

record nlu_result =
  nr_intent :: IntentType
  nr_confidence :: real
  nr_entities :: entities
  nr_user_profile :: UserProfile
  nr_search_goals :: "SearchGoal list"
  nr_requires_clarification :: bool
  nr_clarification_questions :: "question list"
  nr_is_multi_goal :: bool

text \<open>
  \<open>NLUProcessor.process\<close>; the context is not read. An exception of the extraction or of a
  construction leaves the function.
\<close>

definition process :: "regex_engine \<Rightarrow> ustring \<Rightarrow> error + nlu_result" where
  "process re text =
     (case classify re text of (intent, intent_confidence) \<Rightarrow>
        (case extract_all_entities re text of
           Inl e \<Rightarrow> Inl e
         | Inr ents \<Rightarrow>
             (case build_user_profile ents of
                Inl e \<Rightarrow> Inl e
              | Inr user_profile \<Rightarrow>
                  (case build_search_goals ents user_profile of
                     Inl e \<Rightarrow> Inl e
                   | Inr search_goals \<Rightarrow>
                       (let requires = requires_clarification intent intent_confidence;
                            clarification_questions =
                              (if requires then get_clarification_questions intent text else []);
                            overall_confidence =
                              calculate_confidence intent_confidence ents user_profile
                        in Inr \<lparr> nr_intent = intent,
                                 nr_confidence = overall_confidence,
                                 nr_entities = ents,
                                 nr_user_profile = user_profile,
                                 nr_search_goals = search_goals,
                                 nr_requires_clarification = requires,
                                 nr_clarification_questions = clarification_questions,
                                 nr_is_multi_goal = (length search_goals > 1) \<rparr>)))))"

definition build_structured_query :: "nlu_result \<Rightarrow> error + StructuredQuery" where
  "build_structured_query r =
     StructuredQuery_new (nr_user_profile r) (nr_search_goals r) (nr_is_multi_goal r)
       (nr_confidence r)"

text \<open>The response of the \<open>except\<close> branch of \<open>process_message\<close>.\<close>

definition failure_response :: "error \<Rightarrow> ChatbotResponse" where
  "failure_response e =
     \<lparr> resp_success = False, resp_query = None, resp_confidence = 0,
       resp_requires_clarification = False, resp_clarification_questions = [],
       resp_errors = [e] \<rparr>"

text \<open>
  The \<open>try\<close> block of \<open>ChatbotEngine.process_message\<close>. The conversation history is written
  for a session and read into the context, which \<open>process\<close> does not read; the search
  queries that the block generates from the structured query are not part of the
  response, and their generation builds lists and dictionaries from the fields of the
  query with no statement that raises on them. Neither is modelled.
\<close>

definition try_process_message :: "regex_engine \<Rightarrow> ustring \<Rightarrow> error + ChatbotResponse" where
  "try_process_message re message =
     (case process re message of
        Inl e \<Rightarrow> Inl e
      | Inr nlu \<Rightarrow>
          if nr_requires_clarification nlu
          then ChatbotResponse_new True None (nr_confidence nlu) True
                 (nr_clarification_questions nlu) []
          else (case build_structured_query nlu of
                  Inl e \<Rightarrow> Inl e
                | Inr structured_query \<Rightarrow>
                    ChatbotResponse_new True (Some structured_query) (nr_confidence nlu) False
                      [] []))"

text \<open>\<open>ChatbotEngine.process_message\<close>: every exception of the block gives the failure response.\<close>

definition process_message :: "regex_engine \<Rightarrow> ustring \<Rightarrow> ChatbotResponse" where
  "process_message re message =
     (case try_process_message re message of
        Inl e \<Rightarrow> failure_response e
      | Inr response \<Rightarrow> response)"

section \<open>Auxiliary descriptions and example inputs of the chatbot\<close>

text \<open>The dictionary \<open>combined_scores\<close> of \<open>classify\<close> after its two loops.\<close>

definition combined_scores :: "regex_engine \<Rightarrow> ustring \<Rightarrow> (IntentType \<times> real) list" where
  "combined_scores re text =
     add_scores 0.4 (classify_by_patterns re text) (add_scores 0.6 (classify_by_keywords text) [])"

text \<open>
  The selection of the budget source as the specification words it: liquidity and loan
  both positive; only the loan positive; only the monthly payment positive; otherwise
  liquidity.
\<close>

definition budget_source_as_stated :: "UserProfile \<Rightarrow> BudgetSource" where
  "budget_source_as_stated p =
     (if up_liquidity p > 0 \<and> up_loan_amount p > 0 then LIQUIDITY_LOAN
      else if up_loan_amount p > 0 \<and> \<not> up_liquidity p > 0 \<and> \<not> up_max_monthly_payment p > 0
      then LOAN
      else if up_max_monthly_payment p > 0 \<and> \<not> up_liquidity p > 0 \<and> \<not> up_loan_amount p > 0
      then MONTHLY_PAYMENT
      else LIQUIDITY)"

text \<open>
  The entities of a message that names 600 million in cash and an instalment of 20 million
  a month, with no loan and no place, and the profile built from them.
\<close>

definition no_search_info :: search_info where
  "no_search_info = \<lparr> si_type = None, si_search_type = [], si_is_rent = False,
     si_is_purchase = False, si_is_lease = False \<rparr>"

definition entities_cash_and_instalment :: entities where
  "entities_cash_and_instalment =
     \<lparr> en_money_entities =
         [\<lparr> ee_entity_type = ascii ''money'', ee_value = 600, ee_confidence = 0.9,
            ee_start_pos = 3, ee_end_pos = 14, ee_raw_text = ascii ''600 M '' \<rparr>],
       en_locations = [],
       en_loan_info = (0, 0),
       en_monthly_payment = 20,
       en_search_type = no_search_info,
       en_primary_liquidity = Some 600 \<rparr>"

definition profile_cash_and_instalment :: UserProfile where
  "profile_cash_and_instalment =
     \<lparr> up_liquidity = 600, up_loan_amount = 0, up_loan_availability_months = 0,
       up_max_monthly_payment = 20, up_existing_obligations = 0 \<rparr>"

text \<open>
  What the engine assumes of \<open>re\<close> where it calls \<open>int\<close> without a guard: the capture
  \<open>(\d+)\<close> of the first match of each time pattern is a number that \<open>int\<close> reads.
\<close>

definition time_captures_numeric :: "regex_engine \<Rightarrow> ustring \<Rightarrow> bool" where
  "time_captures_numeric re text =
     list_all (\<lambda>pattern. case re pattern text of
                            [] \<Rightarrow> True
                          | m # _ \<Rightarrow> py_int (m_group1 m) \<noteq> None) time_patterns"

text \<open>
  The message \<open>5 bilyun\<close>, and what the engine finds in it: \<open>MONEY_PATTERN 2\<close> matches the
  whole message and captures the number; no other money pattern has a match, since the
  message holds no word for million or thousand and no currency word.
\<close>

definition five_bilyun :: ustring where
  "five_bilyun = ascii ''5 '' @ bilyun"

definition match_five_bilyun :: regex_engine where
  "match_five_bilyun pattern text =
     (if pattern = MONEY_PATTERN 2 \<and> text = five_bilyun
      then [\<lparr> m_group0 = five_bilyun, m_group1 = ascii ''5'', m_start = 0, m_end = 8 \<rparr>]
      else [])"

text \<open>
  The message salam, and the engine that finds no match: on a text with no digit and none
  of the words of the patterns, no pattern of the source has a match.
\<close>

definition salam :: ustring where
  "salam = [0x633, 0x644, 0x627, 0x645]"

definition no_match :: regex_engine where
  "no_match = (\<lambda>pattern text. [])"


section \<open>The result normalizer: duplicates, order and completeness\<close>

lemma completeness_score_le: "calculate_completeness item \<le> 8 / 10"
  unfolding calculate_completeness_def Let_def by simp

text \<open>
  C10. The completeness score that the normalizer recomputes for an item is at most 0.8:
  the weights of the fields add up to 8.0 and the sum is divided by 10.0. The score 1.0 is
  never reached, and the score stored in the normalized item is this one. (The partial
  sums are multiples of 0.5 below 8, which a binary float holds exactly, and the float
  quotient 8.0 / 10.0 is the float 0.8.)
\<close>

theorem completeness_at_most_0_8:
  "calculate_completeness item \<le> 0.8 \<and> calculate_completeness item \<noteq> 1 \<and>
   map_option ni_completeness_score (normalize_item item) = Some (calculate_completeness item)"
proof -
  have le: "calculate_completeness item \<le> 8 / 10" by (rule completeness_score_le)
  then have "calculate_completeness item \<le> 0.8" by simp
  moreover from le have "calculate_completeness item \<noteq> 1" by linarith
  moreover have "map_option ni_completeness_score (normalize_item item)
      = Some (calculate_completeness item)"
    by (simp add: normalize_item_def normalized_dict_def)
  ultimately show ?thesis by blast
qed

lemma collect_loop_eq: "collect_loop acc rs = acc @ concat (map cr_items (filter cr_success rs))"
  by (induction rs arbitrary: acc) auto

lemma dedup_loop_eq:
  "dedup_loop seen acc xs = acc @ map normalized_dict (first_occurrences seen xs)"
  by (induction xs arbitrary: seen acc) (auto simp: normalize_item_def)

lemma first_occurrences_append:
  "first_occurrences seen (xs @ ys) =
   first_occurrences seen xs @ first_occurrences (seen \<union> ci_url ` set xs) ys"
  by (induction xs arbitrary: seen) (auto simp: insert_absorb)

lemma first_occurrences_distinct:
  "distinct (map ci_url xs) \<Longrightarrow> ci_url ` set xs \<inter> seen = {} \<Longrightarrow> first_occurrences seen xs = xs"
  by (induction xs arbitrary: seen) auto

lemma first_occurrences_two:
  assumes "ci_url a' = ci_url a" "distinct (map ci_url (xs @ a # ys @ zs))"
  shows "first_occurrences {} (xs @ a # ys @ a' # zs) = xs @ a # ys @ zs"
proof -
  from assms(2) have dx: "distinct (map ci_url xs)" and dy: "distinct (map ci_url ys)"
    and dz: "distinct (map ci_url zs)"
    and ax: "ci_url a \<notin> ci_url ` set xs" and ay: "ci_url a \<notin> ci_url ` set ys"
    and az: "ci_url a \<notin> ci_url ` set zs"
    and xy: "ci_url ` set xs \<inter> ci_url ` set ys = {}"
    and xz: "ci_url ` set xs \<inter> ci_url ` set zs = {}"
    and yz: "ci_url ` set ys \<inter> ci_url ` set zs = {}"
    by auto
  have 1: "first_occurrences {} xs = xs"
    using dx by (simp add: first_occurrences_distinct)
  have 2: "first_occurrences (insert (ci_url a) (ci_url ` set xs)) ys = ys"
    using dy ay xy by (intro first_occurrences_distinct) auto
  have 3: "first_occurrences (insert (ci_url a) (ci_url ` set xs \<union> ci_url ` set ys)) zs = zs"
    using dz az xz yz by (intro first_occurrences_distinct) auto
  show ?thesis
    using ax by (simp add: first_occurrences_append 1 2 3 assms(1) Un_commute insert_commute)
qed

lemma filter_url_distinct:
  "distinct (map f L) \<Longrightarrow> a \<in> set L \<Longrightarrow> filter (\<lambda>i. f i = f a) L = [a]"
  by (induction L) (auto simp: filter_empty_conv image_iff)

lemma collect_items_eq:
  "collect_items b = concat (map cr_items (filter cr_success (cb_results b)))"
  by (simp add: collect_items_def collect_loop_eq)

lemma mset_collect_items:
  "mset (collect_items b) =
   (\<Sum>r\<in>#filter_mset cr_success (mset (cb_results b)). mset (cr_items r))"
  by (simp add: collect_items_eq mset_concat comp_def flip: sum_mset_sum_list)

lemma nb_items_eq:
  "nb_items (normalize_batch b) =
   sort_reverse (\<lambda>x. (ni_confidence_score x, ni_completeness_score x))
     (map normalized_dict (first_occurrences {} (collect_items b)))"
  by (simp add: normalize_batch_def Let_def dedup_loop_eq)

lemma mset_sort_reverse: "mset (sort_reverse k xs) = mset xs"
  by (simp add: sort_reverse_def)

lemma filter_sort_reverse: "filter P (sort_reverse k xs) = sort_reverse k (filter P xs)"
  by (simp only: sort_reverse_def rev_filter[symmetric] filter_sort)

lemma length_sort_reverse: "length (sort_reverse k xs) = length xs"
  by (simp add: sort_reverse_def)

lemma nb_duplicates_removed_eq:
  "nb_duplicates_removed (normalize_batch b) =
   int (length (collect_items b)) - int (length (first_occurrences {} (collect_items b)))"
  by (simp add: normalize_batch_def Let_def dedup_loop_eq length_sort_reverse)

lemma ni_url_normalized_dict: "ni_url (normalized_dict i) = ci_url i"
  by (simp add: normalized_dict_def)

text \<open>
  C4. When the items of the successful results, in the order of concatenation, hold two
  items \<open>a\<close> and \<open>a'\<close> of the same url, \<open>a\<close> before \<open>a'\<close>, and the urls are otherwise distinct,
  the output of \<open>normalize_batch\<close> holds exactly one item of that url, the normalized form
  of the first one, \<open>duplicates_removed\<close> is 1, and the output is the normalized forms of
  the other items and of \<open>a\<close>.
\<close>

theorem normalize_batch_one_duplicate:
  assumes "collect_items b = xs @ a # ys @ a' # zs"
    and "ci_url a' = ci_url a"
    and "distinct (map ci_url (xs @ a # ys @ zs))"
  shows "filter (\<lambda>n. ni_url n = ci_url a) (nb_items (normalize_batch b)) = [normalized_dict a]
    \<and> nb_duplicates_removed (normalize_batch b) = 1
    \<and> mset (nb_items (normalize_batch b)) = mset (map normalized_dict (xs @ a # ys @ zs))"
proof -
  let ?L = "xs @ a # ys @ zs"
  have fo: "first_occurrences {} (collect_items b) = ?L"
    using assms by (simp add: first_occurrences_two)
  have "filter (\<lambda>n. ni_url n = ci_url a) (map normalized_dict ?L)
      = map normalized_dict (filter (\<lambda>i. ci_url i = ci_url a) ?L)"
    by (simp add: filter_map comp_def ni_url_normalized_dict)
  also have "filter (\<lambda>i. ci_url i = ci_url a) ?L = [a]"
    using assms(3) by (intro filter_url_distinct) auto
  finally have fm: "filter (\<lambda>n. ni_url n = ci_url a) (map normalized_dict ?L)
      = [normalized_dict a]"
    by simp
  have one: "filter (\<lambda>n. ni_url n = ci_url a) (nb_items (normalize_batch b))
      = [normalized_dict a]"
    unfolding nb_items_eq fo filter_sort_reverse fm by (simp add: sort_reverse_def)
  have dup: "nb_duplicates_removed (normalize_batch b) = 1"
    using fo by (simp add: nb_duplicates_removed_eq assms(1))
  have ms: "mset (nb_items (normalize_batch b)) = mset (map normalized_dict ?L)"
    by (simp add: nb_items_eq fo mset_sort_reverse)
  from one dup ms show ?thesis by blast
qed

text \<open>
  Scenario D: the first item of \<open>divar\<close> and the item of \<open>sheypoor\<close> share a url; the output
  keeps the one of \<open>divar\<close> and counts one duplicate.
\<close>

theorem normalize_batch_one_duplicate_witness:
  "collect_items batch_D = [] @ item_d1 # [item_d2] @ item_s1 # []
   \<and> ci_url item_s1 = ci_url item_d1
   \<and> distinct (map ci_url ([] @ item_d1 # [item_d2] @ []))
   \<and> filter (\<lambda>n. ni_url n = ci_url item_d1) (nb_items (normalize_batch batch_D))
       = [normalized_dict item_d1]
   \<and> nb_duplicates_removed (normalize_batch batch_D) = 1"
proof -
  have h1: "collect_items batch_D = [] @ item_d1 # [item_d2] @ item_s1 # []"
    by (simp add: collect_items_def batch_D_def result_of_def)
  have h2: "ci_url item_s1 = ci_url item_d1"
    by (simp add: item_s1_def item_d1_def example_item_def)
  have h3: "distinct (map ci_url ([] @ item_d1 # [item_d2] @ []))"
    by (simp add: item_d1_def item_d2_def example_item_def ascii_def)
  from normalize_batch_one_duplicate[OF h1 h2 h3] h1 h2 h3 show ?thesis by blast
qed

text \<open>
  C8. When the urls of the items of the successful results are pairwise distinct, every
  rearrangement of the results gives the same set of normalized, scored items (and the
  same items with the same multiplicities).
\<close>

theorem normalize_batch_permutation:
  assumes "mset (cb_results b') = mset (cb_results b)"
    and "distinct (map ci_url (collect_items b))"
  shows "set (nb_items (normalize_batch b')) = set (nb_items (normalize_batch b))
    \<and> mset (nb_items (normalize_batch b')) = mset (nb_items (normalize_batch b))"
proof -
  have m: "mset (collect_items b') = mset (collect_items b)"
    by (simp add: mset_collect_items assms(1))
  then have "mset (map ci_url (collect_items b')) = mset (map ci_url (collect_items b))"
    by simp
  then have d': "distinct (map ci_url (collect_items b'))"
    using assms(2) by (metis mset_eq_imp_distinct_iff)
  have f: "first_occurrences {} (collect_items b) = collect_items b"
    using assms(2) by (simp add: first_occurrences_distinct)
  have f': "first_occurrences {} (collect_items b') = collect_items b'"
    using d' by (simp add: first_occurrences_distinct)
  have ms: "mset (nb_items (normalize_batch b')) = mset (nb_items (normalize_batch b))"
    by (simp add: nb_items_eq f f' mset_sort_reverse m)
  then have "set (nb_items (normalize_batch b')) = set (nb_items (normalize_batch b))"
    by (rule mset_eq_setD)
  with ms show ?thesis by blast
qed

text \<open>The two orders of the results of \<open>batch_P\<close> give the same set of items.\<close>

theorem normalize_batch_permutation_witness:
  "mset (cb_results batch_P') = mset (cb_results batch_P)
   \<and> distinct (map ci_url (collect_items batch_P))
   \<and> set (nb_items (normalize_batch batch_P')) = set (nb_items (normalize_batch batch_P))"
proof -
  have h1: "mset (cb_results batch_P') = mset (cb_results batch_P)"
    by (simp add: batch_P'_def batch_P_def)
  have h2: "distinct (map ci_url (collect_items batch_P))"
    by (simp add: collect_items_def batch_P_def result_of_def item_d1_def item_d2_def
        item_s3_def example_item_def ascii_def)
  from normalize_batch_permutation[OF h1 h2] h1 h2 show ?thesis by blast
qed

section \<open>The crawl orchestrator\<close>

text \<open>
  C5. The batch result of \<open>crawl_batch\<close> is successful exactly when one of its results is,
  and its \<open>total_items\<close> is the sum of the \<open>total_items\<close> of its results; in either mode and
  for every completion order.
\<close>

theorem crawl_batch_success_and_total:
  "(cb_success (crawl_batch crawlers as_completed queries parallel)
      \<longleftrightarrow> (\<exists>r \<in> set (cb_results (crawl_batch crawlers as_completed queries parallel)).
            cr_success r))
   \<and> cb_total_items (crawl_batch crawlers as_completed queries parallel)
      = (\<Sum>r\<leftarrow>cb_results (crawl_batch crawlers as_completed queries parallel).
            cr_total_items r)"
  by (simp add: crawl_batch_def Let_def list_ex_iff)

lemma normalize_loop_eq:
  "normalize_loop nrm g items errors raws =
   (items @ kept_items nrm g raws, errors @ normalization_errors nrm g raws)"
  by (induction raws arbitrary: items errors)
     (auto simp: kept_items_def normalization_errors_def
           split: sum.splits option.splits)

lemma fetch_attempts_None_iff:
  "k \<le> n \<Longrightarrow> fetch_attempts get n [k..<n] = None \<longleftrightarrow> (\<forall>a. k \<le> a \<and> a < n \<longrightarrow> isl (get a))"
proof (induction "n - k" arbitrary: k)
  case 0
  then show ?case by auto
next
  case (Suc d)
  then have kn: "k < n" by simp
  then have up: "[k..<n] = k # [Suc k..<n]" by (simp add: upt_conv_Cons)
  have IH: "fetch_attempts get n [Suc k..<n] = None \<longleftrightarrow> (\<forall>a. Suc k \<le> a \<and> a < n \<longrightarrow> isl (get a))"
    using Suc kn by (intro Suc.hyps(1)) auto
  show ?case
  proof (cases "get k")
    case (Inl e)
    show ?thesis
    proof (cases "k < n - 1")
      case True
      have "(\<forall>a. k \<le> a \<and> a < n \<longrightarrow> isl (get a)) \<longleftrightarrow> (\<forall>a. Suc k \<le> a \<and> a < n \<longrightarrow> isl (get a))"
        using Inl by (metis Suc_leI le_neq_implies_less Suc_leD sum.disc(1))
      with True Inl IH show ?thesis by (simp add: up)
    next
      case False
      with kn have "n = Suc k" by simp
      with Inl show ?thesis by (auto simp: up le_less_Suc_eq)
    qed
  next
    case (Inr t)
    then have "\<not> isl (get k)" by simp
    with kn Inr show ?thesis by (auto simp: up)
  qed
qed

lemma fetch_with_requests_None_iff:
  "fetch_with_requests c url = None \<longleftrightarrow> (\<forall>a<bc_retry_times c. isl (bc_requests_get c url a))"
  using fetch_attempts_None_iff[of 0 "bc_retry_times c" "bc_requests_get c url"]
  by (simp add: fetch_with_requests_def)

lemma crawl_success_iff:
  "cr_success (crawl c f g) \<longleftrightarrow>
   (\<exists>url html raws. bc_build_search_url c f = Inr url \<and> fetch_page c url = Inr (Some html)
      \<and> html \<noteq> [] \<and> bc_extract_items c html = Inr raws)"
  by (auto simp: crawl_def failed_result_def truthy_str_def
           split: sum.splits option.splits prod.splits)

lemma crawl_failure_shape:
  "\<not> cr_success (crawl c f g) \<Longrightarrow>
   cr_items (crawl c f g) = [] \<and> cr_total_items (crawl c f g) = 0
     \<and> length (cr_errors (crawl c f g)) = 1"
  by (auto simp: crawl_def failed_result_def truthy_str_def
           split: sum.splits option.splits prod.splits if_splits)

lemma crawl_no_content:
  "bc_build_search_url c f = Inr url \<Longrightarrow>
   fetch_page c url = Inr None \<or> fetch_page c url = Inr (Some []) \<Longrightarrow>
   crawl c f g = failed_result (bc_site_name c) [ascii ''Failed to fetch page content'']"
  by (auto simp: crawl_def truthy_str_def)

lemma crawl_fetched:
  "bc_build_search_url c f = Inr url \<Longrightarrow> fetch_page c url = Inr (Some html) \<Longrightarrow>
   html \<noteq> [] \<Longrightarrow> bc_extract_items c html = Inr raws \<Longrightarrow>
   crawl c f g = \<lparr> cr_success = True, cr_site_name = bc_site_name c,
     cr_items = kept_items (bc_normalize_item c) g raws,
     cr_total_items = int (length (kept_items (bc_normalize_item c) g raws)),
     cr_errors = normalization_errors (bc_normalize_item c) g raws \<rparr>"
  by (simp add: crawl_def truthy_str_def normalize_loop_eq)

lemma crawl_X: "crawl crawler_X () (Some 1) =
    failed_result (ascii ''X'') [ascii ''Failed to fetch page content'']"
  by (simp add: crawl_def fetch_page_def fetch_with_requests_def example_crawler_def crawler_X_def
      truthy_str_def upt_conv_Cons)

lemma crawl_Y: "cr_success (crawl crawler_Y () (Some 1)) \<and> cr_total_items (crawl crawler_Y () (Some 1)) = 5"
  by (simp add: crawl_def fetch_page_def fetch_with_requests_def example_crawler_def crawler_Y_def
      truthy_str_def upt_conv_Cons ascii_def kept_items_def normalize_loop_eq)

text \<open>
  Scenario C: every attempt of site \<open>X\<close> fails and site \<open>Y\<close> gives five records; the batch
  succeeds with five items, one result failed and one succeeded with five.
\<close>

theorem crawl_batch_scenario_C:
  "cb_success (crawl_batch crawlers_XY id queries_XY True)
   \<and> cb_total_items (crawl_batch crawlers_XY id queries_XY True) = 5
   \<and> map cr_success (cb_results (crawl_batch crawlers_XY id queries_XY True)) = [False, True]
   \<and> map cr_total_items (cb_results (crawl_batch crawlers_XY id queries_XY True)) = [0, 5]"
proof -
  have r: "cb_results (crawl_batch crawlers_XY id queries_XY True)
      = [crawl crawler_X () (Some 1), crawl crawler_Y () (Some 1)]"
    by (simp add: crawl_batch_def crawl_parallel_def queries_XY_def crawlers_XY_def
        crawl_site_def ascii_def Let_def)
  show ?thesis
    using crawl_batch_success_and_total[of crawlers_XY id queries_XY True] crawl_X crawl_Y
    by (simp add: r failed_result_def)
qed

lemma crawl_build_raises:
  "bc_build_search_url c f = Inl e \<Longrightarrow>
   crawl c f g = failed_result (bc_site_name c) [str_exn e]"
  by (simp add: crawl_def)

lemma crawl_fetch_raises:
  "bc_build_search_url c f = Inr url \<Longrightarrow> fetch_page c url = Inl e \<Longrightarrow>
   crawl c f g = failed_result (bc_site_name c) [str_exn e]"
  by (simp add: crawl_def)

lemma crawl_extract_raises:
  "bc_build_search_url c f = Inr url \<Longrightarrow> fetch_page c url = Inr (Some html) \<Longrightarrow>
   html \<noteq> [] \<Longrightarrow> bc_extract_items c html = Inl e \<Longrightarrow>
   crawl c f g = failed_result (bc_site_name c) [str_exn e]"
  by (simp add: crawl_def truthy_str_def)

lemma fetch_page_raises_iff:
  "fetch_page c url = Inl e \<longleftrightarrow> bc_use_selenium c \<and> bc_driver c = Inl e"
  by (auto simp: fetch_page_def fetch_with_selenium_def split: sum.splits)

text \<open>
  C2, as the code has it. A crawl succeeds exactly when the url was built, the fetch
  returned a page that is not empty and \<open>extract_items\<close> returned: an exception of
  \<open>build_search_url\<close>, of the fetch or of \<open>extract_items\<close> gives \<open>success = False\<close> as a fetch
  without content does. Every failed crawl has no items, \<open>total_items = 0\<close> and one message
  in \<open>errors\<close>; for a fetch without content it is \<open>Failed to fetch page content\<close>. After a
  successful fetch and extraction the result is successful whatever the normalization of
  the records does: \<open>items\<close> holds the records that normalized, \<open>errors\<close> one message for
  each record whose normalization raised. Over requests the fetch returns no page exactly
  when each of the \<open>retry_times\<close> attempts raised. When \<open>build_search_url\<close>, the fetch or
  \<open>extract_items\<close> raises an exception \<open>e\<close>, the result is the failed result whose one
  message is \<open>str(e)\<close>; the fetch raises exactly when the crawler uses Selenium and the
  browser cannot be created.
\<close>

theorem crawl_outcome:
  "(cr_success (crawl c f g) \<longleftrightarrow>
      (\<exists>url html raws. bc_build_search_url c f = Inr url \<and> fetch_page c url = Inr (Some html)
         \<and> html \<noteq> [] \<and> bc_extract_items c html = Inr raws))
   \<and> (\<not> cr_success (crawl c f g) \<longrightarrow>
        cr_items (crawl c f g) = [] \<and> cr_total_items (crawl c f g) = 0
        \<and> length (cr_errors (crawl c f g)) = 1)
   \<and> (\<forall>url. bc_build_search_url c f = Inr url
        \<and> (fetch_page c url = Inr None \<or> fetch_page c url = Inr (Some [])) \<longrightarrow>
        crawl c f g = failed_result (bc_site_name c) [ascii ''Failed to fetch page content''])
   \<and> (\<forall>url html raws. bc_build_search_url c f = Inr url
        \<and> fetch_page c url = Inr (Some html) \<and> html \<noteq> []
        \<and> bc_extract_items c html = Inr raws \<longrightarrow>
        crawl c f g = \<lparr> cr_success = True, cr_site_name = bc_site_name c,
          cr_items = kept_items (bc_normalize_item c) g raws,
          cr_total_items = int (length (kept_items (bc_normalize_item c) g raws)),
          cr_errors = normalization_errors (bc_normalize_item c) g raws \<rparr>)
   \<and> (\<forall>url. \<not> bc_use_selenium c \<longrightarrow>
        (fetch_page c url = Inr None \<longleftrightarrow>
           (\<forall>a<bc_retry_times c. isl (bc_requests_get c url a))))
   \<and> (\<forall>e. bc_build_search_url c f = Inl e \<longrightarrow>
        crawl c f g = failed_result (bc_site_name c) [str_exn e])
   \<and> (\<forall>url e. bc_build_search_url c f = Inr url \<and> fetch_page c url = Inl e \<longrightarrow>
        crawl c f g = failed_result (bc_site_name c) [str_exn e])
   \<and> (\<forall>url html e. bc_build_search_url c f = Inr url
        \<and> fetch_page c url = Inr (Some html) \<and> html \<noteq> []
        \<and> bc_extract_items c html = Inl e \<longrightarrow>
        crawl c f g = failed_result (bc_site_name c) [str_exn e])
   \<and> (\<forall>url e. fetch_page c url = Inl e \<longleftrightarrow> bc_use_selenium c \<and> bc_driver c = Inl e)"
proof -
  have 1: "cr_success (crawl c f g) \<longleftrightarrow>
      (\<exists>url html raws. bc_build_search_url c f = Inr url \<and> fetch_page c url = Inr (Some html)
         \<and> html \<noteq> [] \<and> bc_extract_items c html = Inr raws)"
    by (rule crawl_success_iff)
  have 2: "\<not> cr_success (crawl c f g) \<longrightarrow>
        cr_items (crawl c f g) = [] \<and> cr_total_items (crawl c f g) = 0
        \<and> length (cr_errors (crawl c f g)) = 1"
    using crawl_failure_shape[of c f g] by blast
  have 3: "\<forall>url. bc_build_search_url c f = Inr url
        \<and> (fetch_page c url = Inr None \<or> fetch_page c url = Inr (Some [])) \<longrightarrow>
        crawl c f g = failed_result (bc_site_name c) [ascii ''Failed to fetch page content'']"
    using crawl_no_content[of c f _ g] by blast
  have 4: "\<forall>url html raws. bc_build_search_url c f = Inr url
        \<and> fetch_page c url = Inr (Some html) \<and> html \<noteq> []
        \<and> bc_extract_items c html = Inr raws \<longrightarrow>
        crawl c f g = \<lparr> cr_success = True, cr_site_name = bc_site_name c,
          cr_items = kept_items (bc_normalize_item c) g raws,
          cr_total_items = int (length (kept_items (bc_normalize_item c) g raws)),
          cr_errors = normalization_errors (bc_normalize_item c) g raws \<rparr>"
    using crawl_fetched[of c f _ _ _ g] by blast
  have 5: "\<forall>url. \<not> bc_use_selenium c \<longrightarrow>
        (fetch_page c url = Inr None \<longleftrightarrow>
           (\<forall>a<bc_retry_times c. isl (bc_requests_get c url a)))"
    by (simp add: fetch_page_def fetch_with_requests_None_iff)
  have 6: "\<forall>e. bc_build_search_url c f = Inl e \<longrightarrow>
        crawl c f g = failed_result (bc_site_name c) [str_exn e]"
    using crawl_build_raises[of c f _ g] by blast
  have 7: "\<forall>url e. bc_build_search_url c f = Inr url \<and> fetch_page c url = Inl e \<longrightarrow>
        crawl c f g = failed_result (bc_site_name c) [str_exn e]"
    using crawl_fetch_raises[of c f _ _ g] by blast
  have 8: "\<forall>url html e. bc_build_search_url c f = Inr url
        \<and> fetch_page c url = Inr (Some html) \<and> html \<noteq> []
        \<and> bc_extract_items c html = Inl e \<longrightarrow>
        crawl c f g = failed_result (bc_site_name c) [str_exn e]"
    using crawl_extract_raises[of c f _ _ _ g] by blast
  have 9: "\<forall>url e. fetch_page c url = Inl e \<longleftrightarrow> bc_use_selenium c \<and> bc_driver c = Inl e"
    using fetch_page_raises_iff[of c] by blast
  show ?thesis
    apply (intro conjI)
            apply (rule 1)
           apply (rule 2)
          apply (rule 3)
         apply (rule 4)
        apply (rule 5)
       apply (rule 6)
      apply (rule 7)
     apply (rule 8)
    apply (rule 9)
    done
qed

lemma fetch_Z: "fetch_page crawler_Z (ascii ''https://Z'') = Inr (Some (ascii ''<html>''))"
  by (simp add: fetch_page_def fetch_with_requests_def example_crawler_def crawler_Z_def
      upt_conv_Cons)

lemma fetch_X: "fetch_page crawler_X (ascii ''https://X'') = Inr None"
  by (simp add: fetch_page_def fetch_with_requests_def example_crawler_def crawler_X_def
      upt_conv_Cons)

text \<open>
  Site \<open>X\<close>, whose attempts all fail, gives the failed result with the fetch message; site
  \<open>Z\<close>, whose second record does not normalize, succeeds with two items and one message;
  site \<open>W\<close>, whose extraction raises, and site \<open>V\<close>, whose browser cannot be created, give
  the failed result with the message of their exception.
\<close>

theorem crawl_outcome_witness:
  "crawl crawler_X () None = failed_result (ascii ''X'') [ascii ''Failed to fetch page content'']
   \<and> cr_success (crawl crawler_Z () None)
   \<and> length (cr_items (crawl crawler_Z () None)) = 2
   \<and> cr_total_items (crawl crawler_Z () None) = 2
   \<and> cr_errors (crawl crawler_Z () None) = [ascii ''Normalization error: bad record'']
   \<and> crawl crawler_W () None = failed_result (ascii ''W'') [ascii ''parser error'']
   \<and> crawl crawler_V () None = failed_result (ascii ''V'') [ascii ''no browser'']"
proof -
  have bX: "bc_build_search_url crawler_X () = Inr (ascii ''https://X'')"
    by (simp add: crawler_X_def example_crawler_def ascii_def)
  have nX: "bc_site_name crawler_X = ascii ''X''"
    by (simp add: crawler_X_def example_crawler_def)
  have X: "crawl crawler_X () None
      = failed_result (ascii ''X'') [ascii ''Failed to fetch page content'']"
    using crawl_outcome[of crawler_X "()" None] bX fetch_X nX by metis
  have bZ: "bc_build_search_url crawler_Z () = Inr (ascii ''https://Z'')"
    by (simp add: crawler_Z_def example_crawler_def ascii_def)
  have eZ: "bc_extract_items crawler_Z (ascii ''<html>'') = Inr [1, 2, 3]"
    by (simp add: crawler_Z_def example_crawler_def)
  have hZ: "ascii ''<html>'' \<noteq> []" by (simp add: ascii_def)
  have Z: "crawl crawler_Z () None = \<lparr> cr_success = True, cr_site_name = bc_site_name crawler_Z,
          cr_items = kept_items (bc_normalize_item crawler_Z) None [1, 2, 3],
          cr_total_items = int (length (kept_items (bc_normalize_item crawler_Z) None [1, 2, 3])),
          cr_errors = normalization_errors (bc_normalize_item crawler_Z) None [1, 2, 3] \<rparr>"
    using crawl_outcome[of crawler_Z "()" None] bZ fetch_Z eZ hZ by blast
  have k: "length (kept_items (bc_normalize_item crawler_Z) None [1, 2, 3]) = 2"
    by (simp add: kept_items_def crawler_Z_def example_crawler_def)
  have e: "normalization_errors (bc_normalize_item crawler_Z) None [1, 2, 3]
      = [ascii ''Normalization error: bad record'']"
    by (simp add: normalization_errors_def crawler_Z_def example_crawler_def ascii_def)
  have bW: "bc_build_search_url crawler_W () = Inr (ascii ''https://W'')"
    by (simp add: crawler_W_def example_crawler_def ascii_def)
  have fW: "fetch_page crawler_W (ascii ''https://W'') = Inr (Some (ascii ''<html>''))"
    by (simp add: fetch_page_def fetch_with_requests_def example_crawler_def crawler_W_def
        upt_conv_Cons)
  have eW: "bc_extract_items crawler_W (ascii ''<html>'') = Inl (Exn (ascii ''parser error''))"
    by (simp add: crawler_W_def example_crawler_def)
  have nW: "bc_site_name crawler_W = ascii ''W''"
    by (simp add: crawler_W_def example_crawler_def)
  have "crawl crawler_W () None
      = failed_result (bc_site_name crawler_W) [str_exn (Exn (ascii ''parser error''))]"
    using crawl_outcome[of crawler_W "()" None] bW fW eW hZ by blast
  then have W: "crawl crawler_W () None = failed_result (ascii ''W'') [ascii ''parser error'']"
    by (simp add: nW)
  have bV: "bc_build_search_url crawler_V () = Inr (ascii ''https://V'')"
    by (simp add: crawler_V_def example_crawler_def ascii_def)
  have fV: "fetch_page crawler_V (ascii ''https://V'') = Inl (Exn (ascii ''no browser''))"
    by (simp add: fetch_page_def fetch_with_selenium_def example_crawler_def crawler_V_def)
  have nV: "bc_site_name crawler_V = ascii ''V''"
    by (simp add: crawler_V_def example_crawler_def)
  have "crawl crawler_V () None
      = failed_result (bc_site_name crawler_V) [str_exn (Exn (ascii ''no browser''))]"
    using crawl_outcome[of crawler_V "()" None] bV fV by blast
  then have V: "crawl crawler_V () None = failed_result (ascii ''V'') [ascii ''no browser'']"
    by (simp add: nV)
  show ?thesis using X k e W V by (simp add: Z)
qed

text \<open>
  C2 as stated fails: the page of site \<open>W\<close> is fetched, \<open>extract_items\<close> raises, and the
  result has \<open>success = False\<close> although the fetch step succeeded.
\<close>

theorem crawl_fails_on_extraction_error:
  "fetch_page crawler_W (ascii ''https://W'') = Inr (Some (ascii ''<html>''))
   \<and> bc_build_search_url crawler_W () = Inr (ascii ''https://W'')
   \<and> \<not> cr_success (crawl crawler_W () None)
   \<and> cr_errors (crawl crawler_W () None) = [ascii ''parser error'']"
  by (simp add: crawl_def fetch_page_def fetch_with_requests_def example_crawler_def
      crawler_W_def truthy_str_def upt_conv_Cons failed_result_def ascii_def)

section \<open>Schemas and entity extraction\<close>

lemma search_goal_rejects_nonzero_inverted_range:
  "0 < b \<Longrightarrow> b < a \<Longrightarrow>
   isl (SearchGoal_new gid t loc bs pr st (Some a) (Some b) lease af)"
  by (simp add: SearchGoal_new_def ge0_def validate_price_range_def truthy_num_def)

lemma search_goal_price_range:
  "SearchGoal_new gid t loc bs pr st mn mx lease af = Inr g \<Longrightarrow>
   sg_min_price g = Some a \<Longrightarrow> sg_max_price g = Some b \<Longrightarrow> b \<noteq> 0 \<Longrightarrow> a \<le> b"
  by (auto simp: SearchGoal_new_def ge0_def validate_price_range_def truthy_num_def Let_def
      split: option.splits if_splits sum.splits)

text \<open>
  C3. The construction of a \<open>SearchGoal\<close> with \<open>min_price = 5\<close> and \<open>max_price = 0\<close> succeeds,
  although both prices are supplied and \<open>max_price < min_price\<close>: the validator tests the
  truth value of \<open>max_price\<close>, and 0.0 is false. (The two lemmas above are what the validator
  does enforce: a \<open>max_price\<close> that is positive and below \<open>min_price\<close> is refused, and a goal
  whose \<open>max_price\<close> is not zero has \<open>min_price \<le> max_price\<close>.)
\<close>

theorem search_goal_zero_max_price_accepted:
  "\<exists>g. SearchGoal_new 1 GENERAL [] LIQUIDITY MEDIUM (ascii ''x'') (Some 5) (Some 0) None [] = Inr g
     \<and> sg_min_price g = Some 5 \<and> sg_max_price g = Some 0"
  by (simp add: SearchGoal_new_def ge0_def validate_price_range_def truthy_num_def)

lemma py_float_5: "py_float (ascii ''5'') = Some 5"
  by (simp add: py_float_def py_int_def digit_value_def digit_rows_def ascii_def)

lemma normalize_money_cases:
  "py_float (filter (\<lambda>c. c \<noteq> 0x2C) value) = Some x \<Longrightarrow>
   normalize_money value unit =
     (if py_in hezar (py_lower unit) \<or> py_in (ascii ''k'') (py_lower unit) then x / 1000
      else if py_in miliard (py_lower unit) \<or> py_in (ascii ''b'') (py_lower unit) then x * 1000
      else x)"
  by (simp add: normalize_money_def)

lemma normalize_money_default_unit:
  "py_float (filter (\<lambda>c. c \<noteq> 0x2C) value) = Some x \<Longrightarrow> normalize_money value default_unit = x"
  by (simp add: normalize_money_def default_unit_def ascii_def hezar_def miliard_def
      py_lower_def lower_char_def)

text \<open>
  C7. A money mention of 5 with the billion word \<open>bilyun\<close>, which \<open>MONEY_PATTERN 2\<close> accepts,
  is left at 5 and not multiplied by 1000, while the same mention with \<open>miliard\<close> gives
  5000: \<open>_normalize_money\<close> looks for \<open>miliard\<close> and \<open>b\<close> only. The money entity extracted
  from the message \<open>5 bilyun\<close> has the value 5. (The lemmas above give what
  the function does on every unit text, and that the loan and monthly-payment mentions,
  which pass no unit, keep their number.)
\<close>

theorem normalize_money_bilyun_unscaled:
  "normalize_money (ascii ''5'') (ascii ''5 '' @ bilyun) = 5
   \<and> normalize_money (ascii ''5'') (ascii ''5 '' @ miliard) = 5000
   \<and> map ee_value (extract_money_entities match_five_bilyun five_bilyun) = [5]"
proof -
  have 1: "normalize_money (ascii ''5'') (ascii ''5 '' @ bilyun) = 5"
    by (simp add: normalize_money_def py_float_def py_int_def digit_value_def digit_rows_def ascii_def
        bilyun_def miliard_def hezar_def py_lower_def lower_char_def)
  have 2: "normalize_money (ascii ''5'') (ascii ''5 '' @ miliard) = 5000"
    by (simp add: normalize_money_def py_float_def py_int_def digit_value_def digit_rows_def ascii_def
        miliard_def hezar_def py_lower_def lower_char_def)
  have "extract_money_entities match_five_bilyun five_bilyun
      = [money_entity \<lparr> m_group0 = five_bilyun, m_group1 = ascii ''5'', m_start = 0,
           m_end = 8 \<rparr>]"
    by (simp add: extract_money_entities_def money_patterns_def match_five_bilyun_def)
  then have 3: "map ee_value (extract_money_entities match_five_bilyun five_bilyun) = [5]"
    using 1 by (simp add: money_entity_def five_bilyun_def)
  from 1 2 3 show ?thesis by blast
qed

lemma ge0_positive: "0 \<le> v \<Longrightarrow> ge0 f (Some v) = Inr (Some v)"
  by (simp add: ge0_def)

lemma SearchGoal_new_no_min:
  "SearchGoal_new gid t loc bs pr st None
     (if 0 < b then Some b else None) (if 0 < m then Some m else None) af
   = Inr \<lparr> sg_goal_id = gid, sg_type = t, sg_target_location = loc, sg_budget_source = bs,
           sg_priority = pr, sg_search_type = st, sg_min_price = None,
           sg_max_price = (if 0 < b then Some b else None),
           sg_max_monthly_lease_payment = (if 0 < m then Some m else None),
           sg_additional_filters = af \<rparr>"
  by (simp add: SearchGoal_new_def ge0_def validate_price_range_def truthy_num_def)

lemma goals_loop_result:
  "\<exists>new. goals_loop p t bs label gid goals locs = Inr (goals @ new)
     \<and> length new = length locs \<and> (\<forall>g \<in> set new. sg_budget_source g = bs)"
proof (induction locs arbitrary: gid goals)
  case Nil
  then show ?case by simp
next
  case (Cons l locs)
  let ?g = "\<lparr> sg_goal_id = gid, sg_type = t, sg_target_location = l, sg_budget_source = bs,
           sg_priority = (if gid = 1 then HIGH else MEDIUM), sg_search_type = label,
           sg_min_price = None,
           sg_max_price = (if 0 < total_budget p then Some (total_budget p) else None),
           sg_max_monthly_lease_payment =
             (if 0 < up_max_monthly_payment p then Some (up_max_monthly_payment p) else None),
           sg_additional_filters = [] \<rparr>"
  from Cons.IH[of "gid + 1" "goals @ [?g]"] obtain new where
    n: "goals_loop p t bs label (gid + 1) (goals @ [?g]) locs = Inr ((goals @ [?g]) @ new)"
      "length new = length locs" "\<forall>g \<in> set new. sg_budget_source g = bs"
    by blast
  have "goals_loop p t bs label gid goals (l # locs) = Inr (goals @ (?g # new))"
    using n(1) by (simp add: SearchGoal_new_no_min)
  moreover have "length (?g # new) = length (l # locs)" using n(2) by simp
  moreover have "\<forall>g \<in> set (?g # new). sg_budget_source g = bs" using n(3) by simp
  ultimately show ?case by blast
qed

text \<open>
  C6, as the code has it. \<open>build_search_goals\<close> always returns a list of goals that is not
  empty, and every goal has the budget source of the chain: liquidity and loan when both
  are positive; else loan when the loan is positive; else monthly payment when the
  monthly payment is positive, whatever the liquidity; else liquidity.
\<close>

theorem budget_source_chain:
  "\<exists>goals. build_search_goals ents user_profile = Inr goals \<and> goals \<noteq> []
     \<and> (\<forall>g \<in> set goals. sg_budget_source g =
          (if up_loan_amount user_profile > 0 \<and> up_liquidity user_profile > 0 then LIQUIDITY_LOAN
           else if up_loan_amount user_profile > 0 then LOAN
           else if up_max_monthly_payment user_profile > 0 then MONTHLY_PAYMENT
           else LIQUIDITY))"
proof (cases "en_locations ents = []")
  case True
  then show ?thesis
    by (simp add: build_search_goals_def Let_def SearchGoal_new_no_min
        determine_budget_source_def)
next
  case False
  from goals_loop_result[of user_profile
      "case si_type (en_search_type ents) of None \<Rightarrow> GENERAL | Some t \<Rightarrow> t"
      "determine_budget_source user_profile" "si_search_type (en_search_type ents)" 1 "[]"
      "en_locations ents"]
  obtain new where n: "goals_loop user_profile
      (case si_type (en_search_type ents) of None \<Rightarrow> GENERAL | Some t \<Rightarrow> t)
      (determine_budget_source user_profile) (si_search_type (en_search_type ents)) 1 []
      (en_locations ents) = Inr new"
    "length new = length (en_locations ents)"
    "\<forall>g \<in> set new. sg_budget_source g = determine_budget_source user_profile"
    by auto
  from n(2) False have "new \<noteq> []" by auto
  with n(1,3) False show ?thesis
    by (auto simp: build_search_goals_def Let_def determine_budget_source_def)
qed

text \<open>The profile with cash and an instalment gets the source monthly payment.\<close>

theorem budget_source_chain_witness:
  "build_user_profile entities_cash_and_instalment = Inr profile_cash_and_instalment
   \<and> map sg_budget_source
       (projr (build_search_goals entities_cash_and_instalment profile_cash_and_instalment))
     = [MONTHLY_PAYMENT]"
proof -
  have p: "build_user_profile entities_cash_and_instalment = Inr profile_cash_and_instalment"
    by (simp add: build_user_profile_def entities_cash_and_instalment_def UserProfile_new_def
        profile_cash_and_instalment_def)
  have g: "length (projr (build_search_goals entities_cash_and_instalment
      profile_cash_and_instalment)) = 1"
    by (simp add: build_search_goals_def entities_cash_and_instalment_def Let_def
        SearchGoal_new_def ge0_def validate_price_range_def truthy_num_def total_budget_def
        profile_cash_and_instalment_def no_search_info_def)
  from budget_source_chain[of entities_cash_and_instalment profile_cash_and_instalment]
  obtain goals where
    gs: "build_search_goals entities_cash_and_instalment profile_cash_and_instalment = Inr goals"
    "\<forall>g \<in> set goals. sg_budget_source g = MONTHLY_PAYMENT"
    by (auto simp: profile_cash_and_instalment_def)
  from g gs(1) obtain x where "goals = [x]"
    by (cases goals) auto
  with gs p show ?thesis by simp
qed

text \<open>
  C6 as stated fails on that profile: the monthly payment is not the only positive
  amount, so the stated order gives liquidity, and the code gives monthly payment.
\<close>

theorem budget_source_not_as_stated:
  "build_user_profile entities_cash_and_instalment = Inr profile_cash_and_instalment
   \<and> map sg_budget_source
       (projr (build_search_goals entities_cash_and_instalment profile_cash_and_instalment))
     = [MONTHLY_PAYMENT]
   \<and> budget_source_as_stated profile_cash_and_instalment = LIQUIDITY"
  by (simp add: build_user_profile_def entities_cash_and_instalment_def UserProfile_new_def
      profile_cash_and_instalment_def build_search_goals_def Let_def SearchGoal_new_def
      ge0_def validate_price_range_def truthy_num_def total_budget_def no_search_info_def
      determine_budget_source_def budget_source_as_stated_def)

section \<open>The intent classifier\<close>

lemma set_sort_reverse: "set (sort_reverse k xs) = set xs"
  by (simp add: sort_reverse_def)

lemma sort_reverse_Nil_iff: "sort_reverse k xs = [] \<longleftrightarrow> xs = []"
  by (metis set_sort_reverse set_empty)

lemma update_positive:
  "\<forall>x \<in> set cs. 0 < snd x \<Longrightarrow> (0::real) < v \<Longrightarrow> \<forall>x \<in> set (AList.update k v cs). 0 < snd x"
  by (induction cs) auto

lemma dict_get_nonneg:
  "\<forall>x \<in> set cs. 0 < snd x \<Longrightarrow> (0::real) \<le> dict_get cs k 0"
  by (auto simp: dict_get_def split: option.splits dest!: map_of_SomeD)

lemma add_scores_positive:
  "\<forall>x \<in> set cs. 0 < snd x \<Longrightarrow> \<forall>r \<in> set results. 0 < snd r \<Longrightarrow> 0 < w \<Longrightarrow>
   \<forall>x \<in> set (add_scores w results cs). 0 < snd x"
proof (induction results arbitrary: cs)
  case Nil
  then show ?case by (simp add: add_scores_def)
next
  case (Cons r results)
  obtain i s where r: "r = (i, s)" by (cases r)
  with Cons.prems have s: "0 < s" by simp
  have "0 < dict_get cs i 0 + s * w"
    using dict_get_nonneg[OF Cons.prems(1), of i] s Cons.prems(3)
    by (simp add: add_pos_nonneg add.commute)
  then have "\<forall>x \<in> set (AList.update i (dict_get cs i 0 + s * w) cs). 0 < snd x"
    using Cons.prems(1) by (rule update_positive[rotated])
  from Cons.IH[OF this] Cons.prems(2,3)
  show ?case by (simp add: add_scores_def r)
qed

lemma add_scores_keys:
  "fst ` set (add_scores w results cs) = fst ` set cs \<union> fst ` set results"
proof (induction results arbitrary: cs)
  case Nil
  then show ?case by (simp add: add_scores_def)
next
  case (Cons r results)
  obtain i s where r: "r = (i, s)" by (cases r)
  have "fst ` set (add_scores w (r # results) cs)
      = fst ` set (add_scores w results (AList.update i (dict_get cs i 0 + s * w) cs))"
    by (simp add: add_scores_def r)
  also have "\<dots> = fst ` set (AList.update i (dict_get cs i 0 + s * w) cs) \<union> fst ` set results"
    by (rule Cons.IH)
  also have "\<dots> = fst ` set cs \<union> fst ` set (r # results)"
    by (auto simp: dom_update r)
  finally show ?case .
qed

lemma keyword_score_positive: "\<forall>x \<in> set (keyword_score t entry). 0 < snd x"
proof (cases entry)
  case (Pair intent kws)
  let ?n = "length (filter (\<lambda>keyword. py_in keyword t) kws)"
  have pos: "0 < real ?n / real (length kws) * 2" if "0 < ?n"
  proof -
    have "?n \<le> length kws" by (rule length_filter_le)
    with that have "0 < length kws" by linarith
    with that show ?thesis by simp
  qed
  show ?thesis
  proof (cases "0 < ?n")
    case True
    with pos show ?thesis by (simp add: keyword_score_def Let_def Pair)
  next
    case False
    then show ?thesis by (simp add: keyword_score_def Let_def Pair)
  qed
qed

lemma keyword_score_key: "\<forall>x \<in> set (keyword_score t entry). fst x = fst entry"
  by (cases entry) (auto simp: keyword_score_def Let_def)

lemma classify_by_keywords_positive: "\<forall>x \<in> set (classify_by_keywords text). 0 < snd x"
  using keyword_score_positive
  by (auto simp: classify_by_keywords_def Let_def set_sort_reverse)

lemma classify_by_keywords_keys:
  "fst ` set (classify_by_keywords text) \<subseteq> {SEARCH, COMPARE, ADVICE, CALCULATE, GREETING}"
proof -
  have "fst ` set (classify_by_keywords text) \<subseteq> fst ` set intent_keywords"
  proof
    fix i assume "i \<in> fst ` set (classify_by_keywords text)"
    then obtain x where x: "x \<in> set (classify_by_keywords text)" "i = fst x" by blast
    then obtain entry where e: "entry \<in> set intent_keywords"
        "x \<in> set (keyword_score (py_lower text) entry)"
      by (auto simp: classify_by_keywords_def Let_def set_sort_reverse)
    with keyword_score_key[of "py_lower text" entry] have "fst x = fst entry" by blast
    with e(1) x(2) show "i \<in> fst ` set intent_keywords" by simp
  qed
  also have "\<dots> = {SEARCH, COMPARE, ADVICE, CALCULATE, GREETING}"
    by (simp add: intent_keywords_def)
  finally show ?thesis .
qed

lemma classify_by_patterns_positive: "\<forall>x \<in> set (classify_by_patterns re text). 0 < snd x"
  by (auto simp: classify_by_patterns_def set_sort_reverse pattern_score_def split: if_splits)

lemma classify_by_patterns_keys:
  "fst ` set (classify_by_patterns re text) \<subseteq> {SEARCH, COMPARE, ADVICE, CALCULATE, GREETING}"
proof -
  have "fst ` set (classify_by_patterns re text) \<subseteq> fst ` set intent_patterns"
  proof
    fix i assume "i \<in> fst ` set (classify_by_patterns re text)"
    then obtain x where x: "x \<in> set (classify_by_patterns re text)" "i = fst x" by blast
    then obtain entry where e: "entry \<in> set intent_patterns"
        "x \<in> set (pattern_score re text entry)"
      by (auto simp: classify_by_patterns_def set_sort_reverse)
    then have "fst x = fst entry"
      by (cases entry) (auto simp: pattern_score_def split: if_splits)
    with e(1) x(2) show "i \<in> fst ` set intent_patterns" by simp
  qed
  also have "\<dots> \<subseteq> {SEARCH, COMPARE, ADVICE, CALCULATE, GREETING}"
    by (simp add: intent_patterns_def)
  finally show ?thesis .
qed

lemma first_max_in: "first_max b xs \<in> set (b # xs)"
  by (induction xs arbitrary: b) (auto split: if_splits)

lemma first_max_ge_best: "snd b \<le> snd (first_max b xs)"
proof (induction xs arbitrary: b)
  case Nil
  then show ?case by simp
next
  case (Cons x xs)
  show ?case
    using Cons.IH[of x] Cons.IH[of b] by (auto split: if_splits)
qed

lemma first_max_ge: "y \<in> set (b # xs) \<Longrightarrow> snd y \<le> snd (first_max b xs)"
proof (induction xs arbitrary: b)
  case Nil
  then show ?case by simp
next
  case (Cons x xs)
  let ?b' = "if snd b < snd x then x else b"
  from Cons.prems consider "y = b" | "y = x" | "y \<in> set xs" by auto
  then show ?case
  proof cases
    case 1
    have "snd b \<le> snd ?b'" by simp
    also have "\<dots> \<le> snd (first_max ?b' xs)" by (rule first_max_ge_best)
    finally show ?thesis using 1 by simp
  next
    case 2
    have "snd x \<le> snd ?b'" by simp
    also have "\<dots> \<le> snd (first_max ?b' xs)" by (rule first_max_ge_best)
    finally show ?thesis using 2 by simp
  next
    case 3
    then have "y \<in> set (?b' # xs)" by simp
    from Cons.IH[OF this] show ?thesis by simp
  qed
qed

lemma fold_max_eq_Max: "fold max vs (v::real) = Max (set (v # vs))"
  by (rule Max.set_eq_fold[symmetric])

text \<open>The normalization of a non-empty dictionary of positive scores gives the best item the score 1.\<close>

lemma normalized_best:
  fixes c :: "'a \<times> real"
  assumes pos: "\<forall>x \<in> set (c # cs). 0 < snd x"
  defines "m \<equiv> fold max (map snd cs) (snd c)"
  defines "nrm \<equiv> (\<lambda>(intent, s). (intent, min (s / m) 1))"
  shows "snd (first_max (nrm c) (map nrm cs)) = 1"
    and "fst (first_max (nrm c) (map nrm cs)) \<in> fst ` set (c # cs)"
    and "0 < m"
proof -
  have mM: "m = Max (set (map snd (c # cs)))"
    by (simp add: m_def fold_max_eq_Max)
  have "m \<in> set (map snd (c # cs))"
    unfolding mM by (rule Max_in) auto
  then have "m \<in> snd ` set (c # cs)" by simp
  then obtain x where x: "x \<in> set (c # cs)" "snd x = m" by blast
  with pos show mpos: "0 < m" by auto
  have "nrm x \<in> set (nrm c # map nrm cs)" using x(1) by auto
  moreover have "snd (nrm x) = 1"
    using x(2) mpos by (cases x) (simp add: nrm_def)
  ultimately have ge: "1 \<le> snd (first_max (nrm c) (map nrm cs))"
    using first_max_ge[of "nrm x" "nrm c" "map nrm cs"] by simp
  have "first_max (nrm c) (map nrm cs) \<in> set (nrm c # map nrm cs)"
    by (rule first_max_in)
  also have "set (nrm c # map nrm cs) = nrm ` set (c # cs)" by simp
  finally obtain y where y: "y \<in> set (c # cs)" "first_max (nrm c) (map nrm cs) = nrm y"
    by blast
  have "snd (nrm y) \<le> 1" by (cases y) (simp add: nrm_def)
  with ge y(2) show "snd (first_max (nrm c) (map nrm cs)) = 1" by simp
  have "fst (nrm y) = fst y" by (cases y) (simp add: nrm_def)
  with y show "fst (first_max (nrm c) (map nrm cs)) \<in> fst ` set (c # cs)" by auto
qed

lemma combined_scores_positive: "\<forall>x \<in> set (combined_scores re text). 0 < snd x"
  unfolding combined_scores_def
  by (intro add_scores_positive classify_by_patterns_positive classify_by_keywords_positive)
     simp_all

lemma combined_scores_keys:
  "fst ` set (combined_scores re text) =
   fst ` set (classify_by_keywords text) \<union> fst ` set (classify_by_patterns re text)"
  by (simp add: combined_scores_def add_scores_keys)

lemma combined_scores_Nil_iff:
  "combined_scores re text = [] \<longleftrightarrow>
   classify_by_keywords text = [] \<and> classify_by_patterns re text = []"
  using combined_scores_keys[of re "text"] by (metis Un_empty image_is_empty set_empty)

lemma classify_unfold:
  "classify re text =
     (if length (py_strip text) < 2 then (UNKNOWN, 0)
      else case combined_scores re text of
             c # cs \<Rightarrow>
               (let max_score = fold max (map snd cs) (snd c);
                    normalize = (\<lambda>(intent, s). (intent, min (s / max_score) 1))
                in first_max (normalize c) (map normalize cs))
           | [] \<Rightarrow>
               if list_ex (\<lambda>word. py_in word (py_lower text)) search_indicators
               then (SEARCH, 0.7)
               else (UNKNOWN, 0.3))"
  by (auto simp: classify_def combined_scores_def Let_def py_strip_def split: list.splits)

lemma classify_matched_aux:
  assumes "2 \<le> length (py_strip text)"
    and "classify_by_keywords text \<noteq> [] \<or> classify_by_patterns re text \<noteq> []"
  shows "snd (classify re text) = 1"
    and "fst (classify re text)
          \<in> fst ` set (classify_by_keywords text) \<union> fst ` set (classify_by_patterns re text)"
proof -
  from assms(2) have "combined_scores re text \<noteq> []"
    by (simp add: combined_scores_Nil_iff)
  then obtain c cs where cs: "combined_scores re text = c # cs"
    by (cases "combined_scores re text") auto
  have pos: "\<forall>x \<in> set (c # cs). 0 < snd x"
    using combined_scores_positive[of re "text"] by (simp add: cs)
  have cl: "classify re text =
      first_max ((\<lambda>(intent, s). (intent, min (s / fold max (map snd cs) (snd c)) 1)) c)
        (map (\<lambda>(intent, s). (intent, min (s / fold max (map snd cs) (snd c)) 1)) cs)"
    using assms(1) by (simp add: classify_unfold cs Let_def)
  show "snd (classify re text) = 1"
    unfolding cl by (rule normalized_best(1)[OF pos])
  have k: "fst ` set (c # cs)
      = fst ` set (classify_by_keywords text) \<union> fst ` set (classify_by_patterns re text)"
    using combined_scores_keys[of re "text"] by (simp only: cs)
  have "fst (classify re text) \<in> fst ` set (c # cs)"
    unfolding cl by (rule normalized_best(2)[OF pos])
  then show "fst (classify re text)
          \<in> fst ` set (classify_by_keywords text) \<union> fst ` set (classify_by_patterns re text)"
    unfolding k .
qed

text \<open>
  A keyword occurs in the lowered text only if the text itself holds two characters that
  are not white space, so a keyword match passes the length test of \<open>classify\<close>.
\<close>

lemma isspace_small: "py_isspace c \<Longrightarrow> c < 0x41 \<or> 0x7A < c"
  unfolding py_isspace_def by (elim insertE emptyE) simp_all

lemma isspace_not_kelvin: "\<not> py_isspace 0x212A" "\<not> py_isspace 0x6B"
  by (simp_all add: py_isspace_def)

lemma lower_char_isspace: "py_isspace (lower_char c) \<longleftrightarrow> py_isspace c"
proof (cases "0x41 \<le> c \<and> c \<le> 0x5A")
  case True
  then have "\<not> py_isspace c" using isspace_small[of c] by auto
  moreover from True have "\<not> py_isspace (c + 0x20)" using isspace_small[of "c + 0x20"] by auto
  ultimately show ?thesis using True by (simp add: lower_char_def)
next
  case False
  then show ?thesis using isspace_not_kelvin by (auto simp: lower_char_def)
qed

lemma starts_with_iff: "starts_with p s \<longleftrightarrow> (\<exists>post. s = p @ post)"
  by (induction p s rule: starts_with.induct) auto

lemma py_in_iff: "py_in sub s \<longleftrightarrow> (\<exists>pre post. s = pre @ sub @ post)"
proof (induction s)
  case Nil
  then show ?case by auto
next
  case (Cons c cs)
  show ?case
  proof
    assume "py_in sub (c # cs)"
    then consider "starts_with sub (c # cs)" | "py_in sub cs" by auto
    then show "\<exists>pre post. c # cs = pre @ sub @ post"
    proof cases
      case 1
      then obtain post where "c # cs = [] @ sub @ post" by (auto simp: starts_with_iff)
      then show ?thesis by blast
    next
      case 2
      with Cons.IH obtain pre post where "cs = pre @ sub @ post" by blast
      then have "c # cs = (c # pre) @ sub @ post" by simp
      then show ?thesis by blast
    qed
  next
    assume "\<exists>pre post. c # cs = pre @ sub @ post"
    then obtain pre post where e: "c # cs = pre @ sub @ post" by blast
    show "py_in sub (c # cs)"
    proof (cases pre)
      case Nil
      with e have "starts_with sub (c # cs)" by (auto simp: starts_with_iff)
      then show ?thesis by simp
    next
      case (Cons d pre')
      with e have "cs = pre' @ sub @ post" by simp
      with Cons.IH have "py_in sub cs" by blast
      then show ?thesis by simp
    qed
  qed
qed

lemma dropWhile_keeps:
  "\<not> P a \<Longrightarrow> \<exists>ys. dropWhile P (xs @ a # rest) = ys @ a # rest"
proof (induction xs)
  case Nil
  then have "dropWhile P ([] @ a # rest) = [] @ a # rest" by simp
  then show ?case by blast
next
  case (Cons x xs)
  show ?case
  proof (cases "P x")
    case True
    with Cons show ?thesis by simp
  next
    case False
    then have "dropWhile P ((x # xs) @ a # rest) = (x # xs) @ a # rest" by simp
    then show ?thesis by blast
  qed
qed

lemma py_strip_keeps:
  assumes "\<not> py_isspace a" "\<not> py_isspace b"
  shows "2 + length mid \<le> length (py_strip (pre @ a # mid @ b # post))"
proof -
  from dropWhile_keeps[of py_isspace a pre "mid @ b # post"] assms(1) obtain ys where
    1: "dropWhile py_isspace (pre @ a # mid @ b # post) = ys @ a # mid @ b # post" by blast
  have 2: "rev (ys @ a # mid @ b # post) = rev post @ b # (rev mid @ a # rev ys)" by simp
  from dropWhile_keeps[of py_isspace b "rev post" "rev mid @ a # rev ys"] assms(2)
  obtain zs where 3: "dropWhile py_isspace (rev post @ b # (rev mid @ a # rev ys))
       = zs @ b # (rev mid @ a # rev ys)" by blast
  have "py_strip (pre @ a # mid @ b # post) = rev (zs @ b # (rev mid @ a # rev ys))"
    by (simp only: py_strip_def 1 2 3)
  then show ?thesis by simp
qed

lemma two_ends: "2 \<le> length xs \<Longrightarrow> \<exists>a m b. xs = a # m @ [b]"
proof (cases xs)
  case Nil
  assume "2 \<le> length xs"
  with Nil show ?thesis by simp
next
  case (Cons a ys)
  assume "2 \<le> length xs"
  with Cons have "ys \<noteq> []" by auto
  then have "ys = butlast ys @ [last ys]" by simp
  with Cons have "xs = a # butlast ys @ [last ys]" by simp
  then show ?thesis by blast
qed


lemma keywords_shape_all:
  "list_all (\<lambda>entry. list_all (\<lambda>kw. 2 \<le> length kw \<and> \<not> py_isspace (hd kw)
      \<and> \<not> py_isspace (last kw)) (snd entry)) intent_keywords"
  by (simp add: intent_keywords_def py_isspace_def)

lemma keywords_shape:
  "entry \<in> set intent_keywords \<Longrightarrow> kw \<in> set (snd entry) \<Longrightarrow>
   2 \<le> length kw \<and> \<not> py_isspace (hd kw) \<and> \<not> py_isspace (last kw)"
  using keywords_shape_all unfolding list_all_iff by blast

lemma keyword_match_passes_length_test:
  assumes "classify_by_keywords t \<noteq> []"
  shows "2 \<le> length (py_strip t)"
proof -
  from assms have "concat (map (keyword_score (py_lower t)) intent_keywords) \<noteq> []"
    by (simp add: classify_by_keywords_def Let_def sort_reverse_Nil_iff)
  then obtain entry where en: "entry \<in> set intent_keywords"
      "keyword_score (py_lower t) entry \<noteq> []"
    by auto
  obtain intent kws where e: "entry = (intent, kws)" by (cases entry)
  from en(2) have "filter (\<lambda>keyword. py_in keyword (py_lower t)) kws \<noteq> []"
    by (auto simp: keyword_score_def e Let_def split: if_splits)
  then obtain kw where kw: "kw \<in> set kws" "py_in kw (py_lower t)"
    by (auto simp: filter_empty_conv)
  from keywords_shape[OF en(1), of kw] kw(1) e
  have sh: "2 \<le> length kw" "\<not> py_isspace (hd kw)" "\<not> py_isspace (last kw)" by simp_all
  from kw(2) have "\<exists>pre post. py_lower t = pre @ kw @ post"
    by (simp only: py_in_iff)
  then obtain pre post where "map lower_char t = pre @ (kw @ post)"
    unfolding py_lower_def by blast
  then have "\<exists>us vs. t = us @ vs \<and> pre = map lower_char us \<and> kw @ post = map lower_char vs"
    by (simp only: map_eq_append_conv)
  then obtain pre' rest where 1: "t = pre' @ rest" "map lower_char rest = kw @ post"
    by metis
  from 1(2) have "\<exists>us vs. rest = us @ vs \<and> kw = map lower_char us \<and> post = map lower_char vs"
    by (simp only: map_eq_append_conv)
  then obtain mid' post' where 2: "rest = mid' @ post'" "map lower_char mid' = kw"
    by metis
  have "length kw = length mid'" unfolding 2(2)[symmetric] by simp
  with sh(1) have "2 \<le> length mid'" by simp
  from two_ends[OF this] obtain a m b where m: "mid' = a # m @ [b]" by blast
  have "kw = lower_char a # map lower_char m @ [lower_char b]"
    unfolding 2(2)[symmetric] m by simp
  then have "hd kw = lower_char a" "last kw = lower_char b" by simp_all
  with sh have ab: "\<not> py_isspace a" "\<not> py_isspace b" by (simp_all add: lower_char_isspace)
  have "t = pre' @ a # m @ b # post'" by (simp add: 1(1) 2(1) m)
  with py_strip_keeps[OF ab, of m pre' post'] show ?thesis by simp
qed

text \<open>
  C9. When a keyword of some intent matches, or the text passes the length test of
  \<open>classify\<close> (at least two characters once stripped) and a pattern of some intent
  matches, \<open>classify\<close> returns confidence exactly 1, the intent is one of those that
  matched, it is not \<open>UNKNOWN\<close>, and \<open>requires_clarification\<close> is false. (A float divided by
  itself is exactly 1.0, so the statement holds for the float computation as well.)
\<close>

theorem classify_matched_confidence_one:
  assumes "classify_by_keywords text \<noteq> []
    \<or> (2 \<le> length (py_strip text) \<and> classify_by_patterns re text \<noteq> [])"
  shows "snd (classify re text) = 1
    \<and> fst (classify re text)
          \<in> fst ` set (classify_by_keywords text) \<union> fst ` set (classify_by_patterns re text)
    \<and> fst (classify re text) \<noteq> UNKNOWN
    \<and> \<not> requires_clarification (fst (classify re text)) (snd (classify re text))"
proof -
  from assms keyword_match_passes_length_test[of "text"]
  have l: "2 \<le> length (py_strip text)" by blast
  from assms
  have ev: "classify_by_keywords text \<noteq> [] \<or> classify_by_patterns re text \<noteq> []" by blast
  note a = classify_matched_aux[OF l ev]
  have "fst (classify re text) \<in> {SEARCH, COMPARE, ADVICE, CALCULATE, GREETING}"
    using a(2) classify_by_keywords_keys[of "text"] classify_by_patterns_keys[of re "text"]
    by blast
  then have u: "fst (classify re text) \<noteq> UNKNOWN" by auto
  with a show ?thesis by (simp add: requires_clarification_def)
qed

lemma py_strip_salam: "py_strip salam = salam"
  by (simp add: py_strip_def salam_def py_isspace_def)

lemma keywords_salam: "classify_by_keywords salam = [(GREETING, 0.25)]"
  by (simp add: classify_by_keywords_def keyword_score_def intent_keywords_def salam_def
      py_lower_def lower_char_def Let_def sort_reverse_def)

lemma patterns_no_match: "classify_by_patterns no_match t = []"
  by (simp add: classify_by_patterns_def pattern_score_def intent_patterns_def no_match_def
      re_search_def sort_reverse_def)

lemma no_match_hypotheses:
  "extract_money_entities no_match t = []" "time_captures_numeric no_match t"
  "location_captures no_match t = []"
  by (simp_all add: extract_money_entities_def money_patterns_def no_match_def
      time_captures_numeric_def time_patterns_def location_captures_def location_patterns_def)

lemma amount_loop_no_match: "amount_loop no_match t a ps = a"
  by (induction ps) (simp_all add: no_match_def)

lemma months_loop_no_match: "months_loop no_match t k ps = Inr k"
  by (induction ps) (simp_all add: no_match_def)

lemma locations_salam: "extract_location no_match salam = []"
  by (simp add: extract_location_def no_match_hypotheses location_keywords_def salam_def)

text \<open>
  The message salam holds a greeting keyword: it is classified as a greeting with
  confidence 1 and needs no clarification.
\<close>

theorem classify_matched_confidence_one_witness:
  "classify_by_keywords salam \<noteq> []
   \<and> classify no_match salam = (GREETING, 1)
   \<and> \<not> requires_clarification (fst (classify no_match salam)) (snd (classify no_match salam))"
proof -
  have h: "classify_by_keywords salam \<noteq> []
      \<or> (2 \<le> length (py_strip salam) \<and> classify_by_patterns no_match salam \<noteq> [])"
    by (simp add: keywords_salam)
  from classify_matched_confidence_one[OF h]
  have a: "snd (classify no_match salam) = 1"
    and b: "fst (classify no_match salam)
      \<in> fst ` set (classify_by_keywords salam) \<union> fst ` set (classify_by_patterns no_match salam)"
    and d: "\<not> requires_clarification (fst (classify no_match salam))
      (snd (classify no_match salam))"
    by blast+
  from b have "fst (classify no_match salam) = GREETING"
    by (simp add: keywords_salam patterns_no_match)
  with a have "classify no_match salam = (GREETING, 1)" by (simp add: prod_eq_iff)
  with d show ?thesis by (simp add: keywords_salam)
qed

section \<open>The query builder and the engine\<close>

lemma py_float_nonneg: "py_float s = Some x \<Longrightarrow> 0 \<le> x"
  by (auto simp: py_float_def Let_def split: list.splits option.splits)

lemma normalize_money_nonneg: "0 \<le> normalize_money v u"
  using py_float_nonneg[of "filter (\<lambda>c. c \<noteq> 0x2C) v"]
  by (auto simp: normalize_money_def split: option.splits)

lemma amount_loop_nonneg: "0 \<le> a \<Longrightarrow> 0 \<le> amount_loop re t a ps"
  by (induction ps arbitrary: a) (auto simp: normalize_money_nonneg split: list.splits)

lemma months_loop_ok:
  "list_all (\<lambda>pattern. case re pattern t of [] \<Rightarrow> True
                        | m # _ \<Rightarrow> py_int (m_group1 m) \<noteq> None) ps \<Longrightarrow>
   0 \<le> k \<Longrightarrow> \<exists>n. months_loop re t k ps = Inr n \<and> 0 \<le> n"
  by (induction ps arbitrary: k) (auto split: list.splits option.splits)

lemma extract_loan_info_ok:
  assumes "time_captures_numeric re t"
  shows "\<exists>a n. extract_loan_info re t = Inr (a, n) \<and> 0 \<le> a \<and> 0 \<le> n"
proof -
  from months_loop_ok[of re t time_patterns 0] assms
  obtain n where "months_loop re t 0 time_patterns = Inr n" "0 \<le> n"
    by (auto simp: time_captures_numeric_def)
  then show ?thesis
    by (simp add: extract_loan_info_def amount_loop_nonneg)
qed

lemma extract_all_entities_ok:
  assumes "time_captures_numeric re t"
  shows "\<exists>ents. extract_all_entities re t = Inr ents
     \<and> en_money_entities ents = extract_money_entities re t
     \<and> en_locations ents = extract_location re t
     \<and> en_search_type ents = extract_search_type t
     \<and> (\<exists>p. build_user_profile ents = Inr p)"
proof -
  from extract_loan_info_ok[OF assms] obtain a n where
    l: "extract_loan_info re t = Inr (a, n)" "0 \<le> a" "0 \<le> n" by blast
  have v: "0 \<le> ee_value (money_entity m)" for m
    by (simp add: money_entity_def normalize_money_nonneg)
  have liq: "0 \<le> (case (case extract_money_entities re t of [] \<Rightarrow> None
        | e # _ \<Rightarrow> Some (ee_value e)) of None \<Rightarrow> 0 | Some v \<Rightarrow> v)"
  proof (cases "extract_money_entities re t")
    case Nil
    then show ?thesis by simp
  next
    case (Cons e es)
    then have "e \<in> set (extract_money_entities re t)" by simp
    then obtain m where "e = money_entity m"
      by (auto simp: extract_money_entities_def)
    with v Cons show ?thesis by simp
  qed
  have mp: "0 \<le> extract_monthly_payment re t"
    by (simp add: extract_monthly_payment_def amount_loop_nonneg)
  show ?thesis
    using l liq mp
    by (simp add: extract_all_entities_def Let_def build_user_profile_def UserProfile_new_def
        not_less[symmetric])
qed

lemma build_search_goals_ok:
  "\<exists>goals. build_search_goals ents p = Inr goals \<and> goals \<noteq> []"
proof (cases "en_locations ents = []")
  case True
  then show ?thesis
    by (simp add: build_search_goals_def Let_def SearchGoal_new_no_min)
next
  case False
  from goals_loop_result[of p
      "case si_type (en_search_type ents) of None \<Rightarrow> GENERAL | Some t \<Rightarrow> t"
      "determine_budget_source p" "si_search_type (en_search_type ents)" 1 "[]"
      "en_locations ents"]
  obtain new where n: "goals_loop p
      (case si_type (en_search_type ents) of None \<Rightarrow> GENERAL | Some t \<Rightarrow> t)
      (determine_budget_source p) (si_search_type (en_search_type ents)) 1 []
      (en_locations ents) = Inr new"
    "length new = length (en_locations ents)"
    by auto
  from n(2) False have "new \<noteq> []" by auto
  with n(1) False show ?thesis
    by (auto simp: build_search_goals_def Let_def)
qed

lemma calculate_confidence_bounds:
  assumes "0 \<le> ic" "ic \<le> 1"
  shows "0 \<le> calculate_confidence ic ents p" and "calculate_confidence ic ents p \<le> 1"
  using assms unfolding calculate_confidence_def Let_def
  by (auto simp: min_def intro: mult_nonneg_nonneg)

lemma calculate_confidence_no_markers:
  assumes "0 \<le> ic" "ic \<le> 1" "en_money_entities ents = []" "en_locations ents = []"
  shows "calculate_confidence ic ents p \<le> 0.46"
proof -
  have "ic * 0.4 \<le> 0.4" using assms(2) by simp
  moreover have "0 \<le> ic * 0.4" using assms(1) by simp
  ultimately show ?thesis
    using assms(3,4) unfolding calculate_confidence_def Let_def
    by (auto simp: min_def)
qed

lemma keyword_match_scores:
  assumes "entry \<in> set intent_keywords" "w \<in> set (snd entry)" "py_in w (py_lower t)"
  shows "classify_by_keywords t \<noteq> []"
proof -
  obtain intent kws where e: "entry = (intent, kws)" by (cases entry)
  from assms(2,3) e have "w \<in> set (filter (\<lambda>keyword. py_in keyword (py_lower t)) kws)"
    by simp
  then have "0 < length (filter (\<lambda>keyword. py_in keyword (py_lower t)) kws)"
    by (rule length_pos_if_in_set)
  then have "keyword_score (py_lower t) entry \<noteq> []"
    by (simp add: keyword_score_def e Let_def)
  with assms(1) have "concat (map (keyword_score (py_lower t)) intent_keywords) \<noteq> []"
    by auto
  then show ?thesis
    by (simp add: classify_by_keywords_def Let_def sort_reverse_Nil_iff)
qed

lemma search_indicators_are_keywords:
  "w \<in> set search_indicators \<Longrightarrow> \<exists>entry \<in> set intent_keywords. w \<in> set (snd entry)"
  by (auto simp: search_indicators_def intent_keywords_def)

lemma indicator_scores:
  assumes "list_ex (\<lambda>word. py_in word (py_lower t)) search_indicators"
  shows "classify_by_keywords t \<noteq> []"
proof -
  from assms obtain w where w: "w \<in> set search_indicators" "py_in w (py_lower t)"
    by (auto simp: list_ex_iff)
  from search_indicators_are_keywords[OF w(1)] obtain entry where
    "entry \<in> set intent_keywords" "w \<in> set (snd entry)" by blast
  then show ?thesis using w(2) by (rule keyword_match_scores)
qed

lemma classify_short: "length (py_strip t) < 2 \<Longrightarrow> classify re t = (UNKNOWN, 0)"
  by (simp add: classify_unfold)

lemma classify_no_evidence:
  assumes "2 \<le> length (py_strip t)" "classify_by_keywords t = []"
    "classify_by_patterns re t = []"
  shows "classify re t = (UNKNOWN, 0.3)"
proof -
  have "combined_scores re t = []" using assms(2,3) by (simp add: combined_scores_Nil_iff)
  moreover have "\<not> list_ex (\<lambda>word. py_in word (py_lower t)) search_indicators"
    using indicator_scores[of t] assms(2) by blast
  ultimately show ?thesis using assms(1) by (simp add: classify_unfold)
qed

lemma classify_unknown_iff:
  "fst (classify re t) = UNKNOWN \<longleftrightarrow>
   length (py_strip t) < 2 \<or> (classify_by_keywords t = [] \<and> classify_by_patterns re t = [])"
proof (cases "length (py_strip t) < 2")
  case True
  then show ?thesis by (simp add: classify_short)
next
  case False
  then have l: "2 \<le> length (py_strip t)" by simp
  show ?thesis
  proof (cases "classify_by_keywords t = [] \<and> classify_by_patterns re t = []")
    case True
    with l show ?thesis by (simp add: classify_no_evidence)
  next
    case False
    then have ev: "classify_by_keywords t \<noteq> [] \<or> classify_by_patterns re t \<noteq> []" by blast
    have "fst (classify re t) \<in> {SEARCH, COMPARE, ADVICE, CALCULATE, GREETING}"
      using classify_matched_aux(2)[OF l ev] classify_by_keywords_keys[of t]
        classify_by_patterns_keys[of re t]
      by blast
    then have "fst (classify re t) \<noteq> UNKNOWN" by auto
    with False l show ?thesis by simp
  qed
qed

lemma classify_confidence_range:
  "0 \<le> snd (classify re t) \<and> snd (classify re t) \<le> 1"
proof (cases "length (py_strip t) < 2")
  case True
  then show ?thesis by (simp add: classify_short)
next
  case False
  then have l: "2 \<le> length (py_strip t)" by simp
  show ?thesis
  proof (cases "classify_by_keywords t = [] \<and> classify_by_patterns re t = []")
    case True
    with l show ?thesis by (simp add: classify_no_evidence)
  next
    case False
    then have ev: "classify_by_keywords t \<noteq> [] \<or> classify_by_patterns re t \<noteq> []" by blast
    from classify_matched_aux(1)[OF l ev] show ?thesis by simp
  qed
qed

lemma requires_clarification_classify:
  "requires_clarification (fst (classify re t)) (snd (classify re t)) \<longleftrightarrow>
   fst (classify re t) = UNKNOWN"
proof (cases "length (py_strip t) < 2")
  case True
  then show ?thesis by (simp add: classify_short requires_clarification_def)
next
  case False
  then have l: "2 \<le> length (py_strip t)" by simp
  show ?thesis
  proof (cases "classify_by_keywords t = [] \<and> classify_by_patterns re t = []")
    case True
    with l show ?thesis by (simp add: classify_no_evidence requires_clarification_def)
  next
    case False
    then have ev: "classify_by_keywords t \<noteq> [] \<or> classify_by_patterns re t \<noteq> []" by blast
    from classify_matched_aux(1)[OF l ev] show ?thesis
      by (simp add: requires_clarification_def)
  qed
qed

lemma process_message_result:
  assumes tm: "time_captures_numeric re t"
  shows "\<exists>ents p goals.
     extract_all_entities re t = Inr ents \<and> build_user_profile ents = Inr p
     \<and> build_search_goals ents p = Inr goals
     \<and> process_message re t =
         (if fst (classify re t) = UNKNOWN
          then \<lparr> resp_success = True, resp_query = None,
                 resp_confidence = calculate_confidence (snd (classify re t)) ents p,
                 resp_requires_clarification = True,
                 resp_clarification_questions =
                   get_clarification_questions (fst (classify re t)) t,
                 resp_errors = [] \<rparr>
          else \<lparr> resp_success = True,
                 resp_query = Some \<lparr> qy_user_profile = p, qy_search_goals = goals,
                   qy_is_multi_goal = (length goals > 1),
                   qy_confidence = calculate_confidence (snd (classify re t)) ents p \<rparr>,
                 resp_confidence = calculate_confidence (snd (classify re t)) ents p,
                 resp_requires_clarification = False,
                 resp_clarification_questions = [],
                 resp_errors = [] \<rparr>)"
proof -
  from extract_all_entities_ok[OF tm] obtain ents p where
    e: "extract_all_entities re t = Inr ents" and p: "build_user_profile ents = Inr p"
    by blast
  from build_search_goals_ok[of ents p] obtain goals where
    g: "build_search_goals ents p = Inr goals" "goals \<noteq> []" by blast
  obtain i ic where c: "classify re t = (i, ic)" by (cases "classify re t")
  from classify_confidence_range[of re t] c have ic: "0 \<le> ic" "ic \<le> 1" by simp_all
  note b = calculate_confidence_bounds[OF ic, of ents p]
  from requires_clarification_classify[of re t] c
  have r: "requires_clarification i ic \<longleftrightarrow> i = UNKNOWN" by simp
  have pr: "process re t = Inr \<lparr> nr_intent = i,
        nr_confidence = calculate_confidence ic ents p, nr_entities = ents,
        nr_user_profile = p, nr_search_goals = goals,
        nr_requires_clarification = (i = UNKNOWN),
        nr_clarification_questions =
          (if i = UNKNOWN then get_clarification_questions i t else []),
        nr_is_multi_goal = (length goals > 1) \<rparr>"
    by (simp add: process_def c e p g(1) Let_def r)
  have "process_message re t =
         (if i = UNKNOWN
          then \<lparr> resp_success = True, resp_query = None,
                 resp_confidence = calculate_confidence ic ents p,
                 resp_requires_clarification = True,
                 resp_clarification_questions = get_clarification_questions i t,
                 resp_errors = [] \<rparr>
          else \<lparr> resp_success = True,
                 resp_query = Some \<lparr> qy_user_profile = p, qy_search_goals = goals,
                   qy_is_multi_goal = (length goals > 1),
                   qy_confidence = calculate_confidence ic ents p \<rparr>,
                 resp_confidence = calculate_confidence ic ents p,
                 resp_requires_clarification = False,
                 resp_clarification_questions = [],
                 resp_errors = [] \<rparr>)"
    using b g(2)
    by (simp add: process_message_def try_process_message_def pr ChatbotResponse_new_def
        build_structured_query_def StructuredQuery_new_def not_less[symmetric])
  with e p g(1) c show ?thesis by simp
qed

text \<open>
  C1, as the code has it. For a message in which no money entity and no location is
  found (and an engine whose captures of the time patterns are numbers, so that \<open>int\<close>
  does not raise), the response is successful and its confidence is below 0.5, at most
  0.46. It
  asks for clarification, and carries no structured query, exactly when the classifier
  returns \<open>UNKNOWN\<close>: when the stripped text is shorter than two characters, or no keyword
  and no pattern of any intent matches. Otherwise the intent has confidence 1, no
  clarification is asked and a structured query is produced.
\<close>

theorem process_message_without_markers:
  assumes "extract_money_entities re t = []"
    and "extract_location re t = []"
    and "time_captures_numeric re t"
  shows "resp_success (process_message re t)
    \<and> resp_confidence (process_message re t) < 0.5
    \<and> resp_confidence (process_message re t) \<le> 0.46
    \<and> (resp_requires_clarification (process_message re t) \<longleftrightarrow>
         length (py_strip t) < 2
         \<or> (classify_by_keywords t = [] \<and> classify_by_patterns re t = []))
    \<and> (resp_query (process_message re t) = None \<longleftrightarrow>
         length (py_strip t) < 2
         \<or> (classify_by_keywords t = [] \<and> classify_by_patterns re t = []))"
proof -
  from process_message_result[OF assms(3)] obtain ents p goals where
    e: "extract_all_entities re t = Inr ents"
    and r: "process_message re t =
         (if fst (classify re t) = UNKNOWN
          then \<lparr> resp_success = True, resp_query = None,
                 resp_confidence = calculate_confidence (snd (classify re t)) ents p,
                 resp_requires_clarification = True,
                 resp_clarification_questions =
                   get_clarification_questions (fst (classify re t)) t,
                 resp_errors = [] \<rparr>
          else \<lparr> resp_success = True,
                 resp_query = Some \<lparr> qy_user_profile = p, qy_search_goals = goals,
                   qy_is_multi_goal = (length goals > 1),
                   qy_confidence = calculate_confidence (snd (classify re t)) ents p \<rparr>,
                 resp_confidence = calculate_confidence (snd (classify re t)) ents p,
                 resp_requires_clarification = False,
                 resp_clarification_questions = [],
                 resp_errors = [] \<rparr>)"
    by blast
  from extract_all_entities_ok[OF assms(3)] e assms(1,2)
  have m: "en_money_entities ents = []" "en_locations ents = []" by auto
  from classify_confidence_range[of re t]
  have c46: "calculate_confidence (snd (classify re t)) ents p \<le> 0.46"
    by (intro calculate_confidence_no_markers m) simp_all
  then have c: "calculate_confidence (snd (classify re t)) ents p < 0.5" by simp
  show ?thesis
    using c c46 by (simp add: r classify_unknown_iff[symmetric])
qed

text \<open>
  The message \<open>hello\<close> has no marker and no keyword: clarification is asked and there is no
  query.
\<close>

theorem process_message_without_markers_witness:
  "extract_money_entities no_match (ascii ''hello'') = []
   \<and> extract_location no_match (ascii ''hello'') = []
   \<and> time_captures_numeric no_match (ascii ''hello'')
   \<and> resp_requires_clarification (process_message no_match (ascii ''hello''))
   \<and> resp_query (process_message no_match (ascii ''hello'')) = None
   \<and> resp_confidence (process_message no_match (ascii ''hello'')) < 0.5"
proof -
  have h2: "extract_location no_match (ascii ''hello'') = []"
    by (simp add: extract_location_def no_match_hypotheses location_keywords_def ascii_def)
  have k: "classify_by_keywords (ascii ''hello'') = []"
    by (simp add: classify_by_keywords_def keyword_score_def intent_keywords_def ascii_def
      py_lower_def lower_char_def Let_def sort_reverse_def)
  from process_message_without_markers[OF no_match_hypotheses(1) h2 no_match_hypotheses(2)]
  show ?thesis
    by (simp add: no_match_hypotheses h2 k patterns_no_match)
qed

lemma classify_salam: "classify no_match salam = (GREETING, 1)"
  by (simp add: classify_unfold py_strip_salam combined_scores_def keywords_salam
      patterns_no_match add_scores_def dict_get_def) (simp add: salam_def)

text \<open>
  C1 as stated fails on the message salam, the example of the claim: it has no money or
  location marker, and the response asks for no clarification and carries a structured
  query; its confidence is 0.28.
\<close>

theorem salam_needs_no_clarification:
  "extract_money_entities no_match salam = []
   \<and> extract_location no_match salam = []
   \<and> \<not> resp_requires_clarification (process_message no_match salam)
   \<and> resp_query (process_message no_match salam) \<noteq> None
   \<and> resp_confidence (process_message no_match salam) = 0.28"
proof -
  have e: "extract_all_entities no_match salam = Inr \<lparr> en_money_entities = [],
      en_locations = [], en_loan_info = (0, 0), en_monthly_payment = 0,
      en_search_type = extract_search_type salam, en_primary_liquidity = None \<rparr>"
    by (simp add: extract_all_entities_def no_match_hypotheses locations_salam
        extract_loan_info_def extract_monthly_payment_def amount_loop_no_match
        months_loop_no_match)
  have s: "si_type (extract_search_type salam) = None"
    by (simp add: extract_search_type_def any_in_def salam_def py_lower_def lower_char_def
        Let_def)
  from process_message_result[OF no_match_hypotheses(2), of salam]
  show ?thesis
    by (auto simp: e classify_salam no_match_hypotheses locations_salam
        build_user_profile_def UserProfile_new_def calculate_confidence_def Let_def s
        total_budget_def)
qed


end
